theory Spec2Isabelle
  imports Main "HOL-Library.Sublist" "HOL-Library.Multiset"
begin

unbundle bit_operations_syntax

section \<open>The data model of renderer.py\<close>

text \<open>
  The exceptions the core can raise: indexing a list or a string out of range, and
  subscripting a dict with a key it does not hold. A function that can raise returns
  \<open>error + 'a\<close>, \<open>Inl\<close> being the exception.
\<close>

datatype error = IndexError | KeyError

text \<open>
  \<open>Map\<close> (a TypedDict): the default and border symbols, the dict from symbols to sprite
  names and the z-levels, each a list of rows, each row a Python string. A HOL character
  stands for one character of the Python string, and a cell of the grid, \<open>row[x]\<close>, is the
  string of that one character.
\<close>

record Map =
  default :: string
  border :: string
  tiles :: "string \<rightharpoonup> string"
  layers :: "string list list"

text \<open>
  \<open>RenderTile\<close> (a dataclass). Its fields \<open>x\<close>, \<open>y\<close>, \<open>z\<close> are written \<open>tx\<close>, \<open>ty\<close>,
  \<open>tz\<close> here, to leave the letters free for variables.
\<close>

record RenderTile =
  tx :: int
  ty :: int
  tz :: int
  tile :: string
  out_of_bounds :: bool

text \<open>
  The attributes of a \<open>MapRenderer\<close> after \<open>__init__\<close>; \<open>self.map\<close>, \<open>self.x\<close> and
  \<open>self.y\<close> are written \<open>the_map\<close>, \<open>viewer_x\<close> and \<open>viewer_y\<close>.
\<close>

record MapRenderer =
  the_map :: Map
  rows :: int
  cols :: int
  visibility :: int
  radius :: int
  viewer_x :: int
  viewer_y :: int
  render_water_edges :: bool

text \<open>
  The local \<open>layers\<close> of \<open>tile_mapper\<close>, a \<open>defaultdict(list)\<close>: the keys in the order of
  their first insertion (the order in which \<open>render\<close> walks \<open>items()\<close>), each with its
  list of tiles.
\<close>

type_synonym layer_dict = "(int \<times> RenderTile list) list"

definition TILE_SIZE :: int where
  "TILE_SIZE = 40"

definition WATER_EDGE_CANCELERS :: "string list" where
  "WATER_EDGE_CANCELERS =
     [''wtr'', ''cld'', ''scld'', ''fc_1'', ''fc_2'', ''fc_3'', ''fc_4'',
      ''fc_6'', ''fc_7'', ''fc_8'', ''fc_9'']"

section \<open>Python's primitives\<close>

text \<open>
  \<open>seq[i]\<close> on a list or a string: an index below zero counts from the end, and an index
  outside \<open>-len .. len - 1\<close> raises IndexError.
\<close>

definition subscript :: "'a list \<Rightarrow> int \<Rightarrow> error + 'a" where
  "subscript seq i =
     (if 0 \<le> i \<and> i < int (length seq) then Inr (seq ! nat i)
      else if i < 0 \<and> - int (length seq) \<le> i then Inr (seq ! nat (int (length seq) + i))
      else Inl IndexError)"

text \<open>\<open>range(a, b)\<close>, empty when \<open>b \<le> a\<close>.\<close>

definition range_py :: "int \<Rightarrow> int \<Rightarrow> int list" where
  "range_py a b = [a..b - 1]"

text \<open>
  \<open>d[k].append(t)\<close> on a \<open>defaultdict(list)\<close>: a key the dict holds keeps its place and
  its list grows at the end; a new key is inserted last, with the list \<open>[t]\<close>.
\<close>

fun dict_append :: "layer_dict \<Rightarrow> int \<Rightarrow> RenderTile \<Rightarrow> layer_dict" where
  "dict_append [] k t = [(k, [t])]"
| "dict_append ((k', ts) # rest) k t =
     (if k' = k then (k', ts @ [t]) # rest else (k', ts) # dict_append rest k t)"

text \<open>
  A list display \<open>[e1, e2, ...]\<close> whose elements can raise: they are evaluated from left
  to right and the first exception leaves the display.
\<close>

fun list_display :: "(error + 'a) list \<Rightarrow> error + 'a list" where
  "list_display [] = Inr []"
| "list_display (Inl e # rest) = Inl e"
| "list_display (Inr v # rest) =
     (case list_display rest of Inl e \<Rightarrow> Inl e | Inr vs \<Rightarrow> Inr (v # vs))"

section \<open>MapRenderer\<close>

text \<open>
  \<open>__init__\<close>, from the loaded map on (reading and parsing the JSON file is outside the
  core). \<open>len(self.map["layers"][0])\<close> raises on a map without z-levels and
  \<open>len(self.map["layers"][0][0])\<close> on a first level without rows. Nothing else is
  checked: the visibility is made odd with \<open>|= 1\<close> and halved with \<open>//\<close>.
\<close>

definition init :: "Map \<Rightarrow> int \<Rightarrow> int \<Rightarrow> int \<Rightarrow> bool \<Rightarrow> error + MapRenderer" where
  "init m x y vis edges =
     (case subscript (layers m) 0 of
        Inl e \<Rightarrow> Inl e
      | Inr level0 \<Rightarrow>
          (case subscript level0 0 of
             Inl e \<Rightarrow> Inl e
           | Inr row0 \<Rightarrow>
               Inr \<lparr>the_map = m, rows = int (length level0), cols = int (length row0),
                    visibility = vis OR 1, radius = (vis OR 1) div 2,
                    viewer_x = x, viewer_y = y, render_water_edges = edges\<rparr>))"

text \<open>
  \<open>get_tile\<close>, as far as the name of the image file it opens (lines 84 to 90): the
  sprite of the tile type when the dict has one that is not the empty string, the tile
  type itself otherwise. Looking the file up, downloading and opening it are outside
  the core.
\<close>

definition get_tile_img :: "Map \<Rightarrow> string \<Rightarrow> string" where
  "get_tile_img m tile_type =
     (if tiles m tile_type \<noteq> None \<and> tiles m tile_type \<noteq> Some []
      then the (tiles m tile_type) @ ''.gif''
      else tile_type @ ''.gif'')"

text \<open>The expression \<open>self.map["layers"][z][y][x]\<close> (lines 104 and 170).\<close>

definition layers_at :: "Map \<Rightarrow> int \<Rightarrow> int \<Rightarrow> int \<Rightarrow> error + string" where
  "layers_at m z y x =
     (case subscript (layers m) z of
        Inl e \<Rightarrow> Inl e
      | Inr level \<Rightarrow>
          (case subscript level y of
             Inl e \<Rightarrow> Inl e
           | Inr row \<Rightarrow>
               (case subscript row x of Inl e \<Rightarrow> Inl e | Inr c \<Rightarrow> Inr [c])))"

definition get_tile_at :: "MapRenderer \<Rightarrow> int \<Rightarrow> int \<Rightarrow> int \<Rightarrow> error + RenderTile" where
  "get_tile_at self x y z =
     (if x < 0 \<or> y < 0 \<or> x \<ge> cols self \<or> y \<ge> rows self
      then Inr \<lparr>tx = x, ty = y, tz = z, tile = border (the_map self), out_of_bounds = True\<rparr>
      else (case layers_at (the_map self) z y x of
              Inl e \<Rightarrow> Inl e
            | Inr s \<Rightarrow> Inr \<lparr>tx = x, ty = y, tz = z, tile = s, out_of_bounds = False\<rparr>))"

definition get_neighbors :: "MapRenderer \<Rightarrow> int \<Rightarrow> int \<Rightarrow> int \<Rightarrow> error + RenderTile list" where
  "get_neighbors self x y z =
     list_display
       [get_tile_at self x (y - 1) z,
        get_tile_at self x (y + 1) z,
        get_tile_at self (x + 1) y z,
        get_tile_at self (x - 1) y z,
        get_tile_at self (x - 1) (y - 1) z,
        get_tile_at self (x - 1) (y + 1) z,
        get_tile_at self (x + 1) (y + 1) z,
        get_tile_at self (x + 1) (y - 1) z]"

text \<open>
  The expression \<open>self.map["tiles"].get(s) or self.map["tiles"][self.map["default"]]\<close>
  (lines 192 and 214): \<open>or\<close> takes its right operand when the left one is None or the
  empty string, and the subscript raises KeyError when the default symbol has no sprite.
\<close>

definition tiles_get_or_default :: "Map \<Rightarrow> string \<Rightarrow> error + string" where
  "tiles_get_or_default m s =
     (if tiles m s \<noteq> None \<and> tiles m s \<noteq> Some []
      then Inr (the (tiles m s))
      else (case tiles m (default m) of None \<Rightarrow> Inl KeyError | Some v \<Rightarrow> Inr v))"

definition water_lookup :: "nat \<rightharpoonup> string" where
  "water_lookup = [0 \<mapsto> ''n'', 1 \<mapsto> ''s'', 2 \<mapsto> ''e'', 3 \<mapsto> ''w'']"

text \<open>
  The loop of lines 186 to 196 over \<open>enumerate(neighbors[:4])\<close>, with the list
  \<open>water_edges\<close> as accumulator.
\<close>

fun water_edges_loop :: "Map \<Rightarrow> (nat \<times> RenderTile) list \<Rightarrow> string list \<Rightarrow> error + string list" where
  "water_edges_loop m [] water_edges = Inr water_edges"
| "water_edges_loop m ((index, neighbor) # rest) water_edges =
     (case (if out_of_bounds neighbor then Inr ''wtr''
            else tiles_get_or_default m (tile neighbor)) of
        Inl e \<Rightarrow> Inl e
      | Inr tile_name \<Rightarrow>
          if tile_name \<notin> set WATER_EDGE_CANCELERS
          then (case water_lookup index of
                  None \<Rightarrow> Inl KeyError
                | Some code \<Rightarrow> water_edges_loop m rest (water_edges @ [code]))
          else water_edges_loop m rest water_edges)"

text \<open>
  The loop of lines 208 to 226 over \<open>enumerate("acdb")\<close>, with the dict \<open>layers\<close> as
  state: a cap goes to the key \<open>len(layers) + 1\<close>.
\<close>

fun caps_loop ::
  "Map \<Rightarrow> RenderTile list \<Rightarrow> int \<Rightarrow> int \<Rightarrow> int \<Rightarrow> (nat \<times> char) list \<Rightarrow> layer_dict
    \<Rightarrow> error + layer_dict" where
  "caps_loop m ordinal x_out y_out z_index [] ls = Inr ls"
| "caps_loop m ordinal x_out y_out z_index ((index, edge_letter) # rest) ls =
     (case subscript ordinal (int index) of
        Inl e \<Rightarrow> Inl e
      | Inr nb \<Rightarrow>
          if out_of_bounds nb then caps_loop m ordinal x_out y_out z_index rest ls
          else (case tiles_get_or_default m (tile nb) of
                  Inl e \<Rightarrow> Inl e
                | Inr tile_name \<Rightarrow>
                    if tile_name \<notin> set WATER_EDGE_CANCELERS
                    then caps_loop m ordinal x_out y_out z_index rest
                           (dict_append ls (int (length ls) + 1)
                              \<lparr>tx = x_out, ty = y_out, tz = z_index,
                               tile = ''wtrc_'' @ [edge_letter], out_of_bounds = False\<rparr>)
                    else caps_loop m ordinal x_out y_out z_index rest ls))"

text \<open>
  Lines 183 to 226, the branch \<open>tile_name == "wtr"\<close>: the tile to draw and the dict with
  the caps added.
\<close>

definition water_branch ::
  "MapRenderer \<Rightarrow> int \<Rightarrow> int \<Rightarrow> int \<Rightarrow> int \<Rightarrow> int \<Rightarrow> string \<Rightarrow> layer_dict
    \<Rightarrow> error + string \<times> layer_dict" where
  "water_branch self x y z_index x_out y_out symbol ls =
     (case get_neighbors self x y z_index of
        Inl e \<Rightarrow> Inl e
      | Inr neighbors \<Rightarrow>
          (case water_edges_loop (the_map self) (enumerate 0 (take 4 neighbors)) [] of
             Inl e \<Rightarrow> Inl e
           | Inr water_edges \<Rightarrow>
               (case caps_loop (the_map self) (drop 4 neighbors) x_out y_out z_index
                       (enumerate 0 ''acdb'') ls of
                  Inl e \<Rightarrow> Inl e
                | Inr ls' \<Rightarrow>
                    Inr (if concat water_edges \<noteq> [] then ''wtr_'' @ concat water_edges
                         else symbol, ls'))))"

text \<open>
  The body of the inner loop of \<open>tile_mapper\<close> (lines 150 to 230) at the cell \<open>(x, y)\<close> of
  the level \<open>z_index\<close>; each \<open>continue\<close> returns the dict as it stands.
\<close>

definition cell_body ::
  "MapRenderer \<Rightarrow> int \<Rightarrow> int \<Rightarrow> int \<Rightarrow> int \<times> int \<Rightarrow> layer_dict \<Rightarrow> error + layer_dict" where
  "cell_body self x_origin y_origin z_index p ls =
     (let x = fst p; y = snd p;
          x_out = (x - x_origin) * TILE_SIZE;
          y_out = (y - y_origin) * TILE_SIZE
      in
        if z_index = 0 \<and> (x < 0 \<or> y < 0 \<or> x \<ge> cols self \<or> y \<ge> rows self)
        then Inr (dict_append ls z_index
                    \<lparr>tx = x_out, ty = y_out, tz = z_index,
                     tile = border (the_map self), out_of_bounds = True\<rparr>)
        else if x < 0 \<or> y < 0 \<or> x \<ge> cols self \<or> y \<ge> rows self then Inr ls
        else (case layers_at (the_map self) z_index y x of
                Inl e \<Rightarrow> Inl e
              | Inr symbol \<Rightarrow>
                  if symbol = '' '' then Inr ls
                  else if \<not> render_water_edges self then Inr ls
                  else (case (if tiles (the_map self) symbol = Some ''wtr''
                              then water_branch self x y z_index x_out y_out symbol ls
                              else Inr (symbol, ls)) of
                          Inl e \<Rightarrow> Inl e
                        | Inr (name, ls') \<Rightarrow>
                            Inr (dict_append ls' z_index
                                   \<lparr>tx = x_out, ty = y_out, tz = z_index,
                                    tile = name, out_of_bounds = False\<rparr>))))"

text \<open>The loop over \<open>itertools.product(range(x_origin, x_max), range(y_origin, y_max))\<close>.\<close>

fun cells_loop ::
  "MapRenderer \<Rightarrow> int \<Rightarrow> int \<Rightarrow> int \<Rightarrow> (int \<times> int) list \<Rightarrow> layer_dict \<Rightarrow> error + layer_dict" where
  "cells_loop self x_origin y_origin z_index [] ls = Inr ls"
| "cells_loop self x_origin y_origin z_index (p # ps) ls =
     (case cell_body self x_origin y_origin z_index p ls of
        Inl e \<Rightarrow> Inl e
      | Inr ls' \<Rightarrow> cells_loop self x_origin y_origin z_index ps ls')"

text \<open>The loop over \<open>range(len(self.map["layers"]))\<close>.\<close>

fun levels_loop ::
  "MapRenderer \<Rightarrow> int \<Rightarrow> int \<Rightarrow> (int \<times> int) list \<Rightarrow> int list \<Rightarrow> layer_dict \<Rightarrow> error + layer_dict" where
  "levels_loop self x_origin y_origin cells [] ls = Inr ls"
| "levels_loop self x_origin y_origin cells (z_index # zs) ls =
     (case cells_loop self x_origin y_origin z_index cells ls of
        Inl e \<Rightarrow> Inl e
      | Inr ls' \<Rightarrow> levels_loop self x_origin y_origin cells zs ls')"

definition x_origin_of :: "MapRenderer \<Rightarrow> bool \<Rightarrow> int" where
  "x_origin_of self full_map = (if full_map then 0 else - radius self + viewer_x self)"

definition y_origin_of :: "MapRenderer \<Rightarrow> bool \<Rightarrow> int" where
  "y_origin_of self full_map = (if full_map then 0 else - radius self + viewer_y self)"

definition x_max_of :: "MapRenderer \<Rightarrow> bool \<Rightarrow> int" where
  "x_max_of self full_map = (if full_map then cols self else radius self + viewer_x self + 1)"

definition y_max_of :: "MapRenderer \<Rightarrow> bool \<Rightarrow> int" where
  "y_max_of self full_map = (if full_map then rows self else radius self + viewer_y self + 1)"

definition tile_mapper :: "MapRenderer \<Rightarrow> bool \<Rightarrow> error + layer_dict" where
  "tile_mapper self full_map =
     levels_loop self (x_origin_of self full_map) (y_origin_of self full_map)
       (List.product (range_py (x_origin_of self full_map) (x_max_of self full_map))
                     (range_py (y_origin_of self full_map) (y_max_of self full_map)))
       (range_py 0 (int (length (layers (the_map self)))))
       []"

section \<open>Notions used to state the properties\<close>

text \<open>
  A renderer is rectangular when every z-level has \<open>rows\<close> rows and every row has \<open>cols\<close>
  characters (the invariant of the map loader: all levels share the dimensions of the
  first one).
\<close>

definition rectangular :: "MapRenderer \<Rightarrow> bool" where
  "rectangular self \<longleftrightarrow>
     list_all (\<lambda>level. int (length level) = rows self \<and>
                 list_all (\<lambda>row. int (length row) = cols self) level)
       (layers (the_map self))"

text \<open>The tiles of a dict, layer after layer.\<close>

definition all_tiles :: "layer_dict \<Rightarrow> RenderTile list" where
  "all_tiles ls = concat (map snd ls)"

text \<open>
  The dict after the caps of a list are emitted in turn, each with
  \<open>layers[len(layers) + 1].append(cap)\<close>.
\<close>

definition place_caps :: "layer_dict \<Rightarrow> RenderTile list \<Rightarrow> layer_dict" where
  "place_caps ls caps = foldl (\<lambda>d t. dict_append d (int (length d) + 1) t) ls caps"

text \<open>
  A neighbor draws an edge or a cap when it is inside the bounds and its sprite, resolved
  with the fallback to the default symbol, is not in the edge-canceling list. A neighbor
  outside the bounds never does: as a cardinal neighbor it counts as water, as a diagonal
  one it is skipped.
\<close>

definition non_canceling :: "Map \<Rightarrow> RenderTile \<Rightarrow> bool" where
  "non_canceling m nb \<longleftrightarrow>
     \<not> out_of_bounds nb \<and>
     (case tiles_get_or_default m (tile nb) of
        Inl e \<Rightarrow> False
      | Inr sprite \<Rightarrow> sprite \<notin> set WATER_EDGE_CANCELERS)"

text \<open>The code a cardinal neighbor contributes, and the cap a diagonal one gives.\<close>

definition edge_code :: "Map \<Rightarrow> RenderTile \<Rightarrow> char \<Rightarrow> string" where
  "edge_code m nb letter = (if non_canceling m nb then [letter] else [])"

definition cap_if :: "Map \<Rightarrow> RenderTile \<Rightarrow> int \<Rightarrow> int \<Rightarrow> int \<Rightarrow> char \<Rightarrow> RenderTile list" where
  "cap_if m nb x_out y_out z letter =
     (if non_canceling m nb
      then [\<lparr>tx = x_out, ty = y_out, tz = z, tile = ''wtrc_'' @ [letter], out_of_bounds = False\<rparr>]
      else [])"

text \<open>
  Following the spec: on the neighbors in the order N, S, E, W, NW, SW, SE, NE, the edge
  codes are those of the first four, with the letters n, s, e, w, and the caps are those
  of the last four, with the letters a, c, d, b.
\<close>

definition edge_codes :: "Map \<Rightarrow> RenderTile list \<Rightarrow> string" where
  "edge_codes m ns =
     edge_code m (ns ! 0) CHR ''n'' @ edge_code m (ns ! 1) CHR ''s'' @
     edge_code m (ns ! 2) CHR ''e'' @ edge_code m (ns ! 3) CHR ''w''"

definition caps_of :: "Map \<Rightarrow> RenderTile list \<Rightarrow> int \<Rightarrow> int \<Rightarrow> int \<Rightarrow> RenderTile list" where
  "caps_of m ns x_out y_out z =
     cap_if m (ns ! 4) x_out y_out z CHR ''a'' @ cap_if m (ns ! 5) x_out y_out z CHR ''c'' @
     cap_if m (ns ! 6) x_out y_out z CHR ''d'' @ cap_if m (ns ! 7) x_out y_out z CHR ''b''"

text \<open>
  The cell \<open>(x, y)\<close> of the level \<open>z\<close> is a water cell processed with edge rendering
  enabled: it is inside the bounds, its symbol is not the blank, the flag is on and the
  symbol has the sprite \<open>wtr\<close>, which are the tests the loop body makes before line 183.
\<close>

definition water_cell :: "MapRenderer \<Rightarrow> int \<Rightarrow> int \<Rightarrow> int \<Rightarrow> string \<Rightarrow> bool" where
  "water_cell self x y z symbol \<longleftrightarrow>
     0 \<le> x \<and> x < cols self \<and> 0 \<le> y \<and> y < rows self \<and>
     layers_at (the_map self) z y x = Inr symbol \<and> symbol \<noteq> '' '' \<and>
     render_water_edges self \<and> tiles (the_map self) symbol = Some ''wtr''"

text \<open>The content of a tile: its name and its flag, without the position.\<close>

definition name_flag :: "RenderTile \<Rightarrow> string \<times> bool" where
  "name_flag t = (tile t, out_of_bounds t)"

text \<open>The contents of the tiles of a dict at a pixel position and a level.\<close>

definition tiles_at :: "layer_dict \<Rightarrow> int \<Rightarrow> int \<Rightarrow> int \<Rightarrow> (string \<times> bool) list" where
  "tiles_at ls px py z =
     map name_flag (filter (\<lambda>t. tx t = px \<and> ty t = py \<and> tz t = z) (all_tiles ls))"

text \<open>
  What the loop body emits at a cell when it returns: the border tile outside the bounds
  on level 0, nothing for a blank cell or with the flag off, the caps and then the tile
  of a water cell, the symbol itself for any other cell.
\<close>

definition cell_emits :: "MapRenderer \<Rightarrow> int \<Rightarrow> int \<Rightarrow> int \<Rightarrow> int \<times> int \<Rightarrow> RenderTile list" where
  "cell_emits self x_origin y_origin z p =
     (let x = fst p; y = snd p;
          x_out = (x - x_origin) * TILE_SIZE;
          y_out = (y - y_origin) * TILE_SIZE
      in
        if x < 0 \<or> y < 0 \<or> x \<ge> cols self \<or> y \<ge> rows self
        then (if z = 0
              then [\<lparr>tx = x_out, ty = y_out, tz = z,
                     tile = border (the_map self), out_of_bounds = True\<rparr>]
              else [])
        else (case layers_at (the_map self) z y x of
                Inl e \<Rightarrow> []
              | Inr symbol \<Rightarrow>
                  if symbol = '' '' \<or> \<not> render_water_edges self then []
                  else if tiles (the_map self) symbol = Some ''wtr''
                  then (case get_neighbors self x y z of
                          Inl e \<Rightarrow> []
                        | Inr ns \<Rightarrow>
                            caps_of (the_map self) ns x_out y_out z @
                            [\<lparr>tx = x_out, ty = y_out, tz = z,
                              tile = (if edge_codes (the_map self) ns \<noteq> []
                                      then ''wtr_'' @ edge_codes (the_map self) ns else symbol),
                              out_of_bounds = False\<rparr>])
                  else [\<lparr>tx = x_out, ty = y_out, tz = z, tile = symbol, out_of_bounds = False\<rparr>]))"

section \<open>Example maps\<close>

text \<open>A 3 by 3 pond on one level: water below the diagonal, grass above it.\<close>

definition pond_map :: Map where
  "pond_map = \<lparr>default = ''g'', border = ''b'',
      tiles = [''w'' \<mapsto> ''wtr'', ''g'' \<mapsto> ''grs''],
      layers = [[''wgg'', ''wwg'', ''www'']]\<rparr>"

definition pond :: MapRenderer where
  "pond = \<lparr>the_map = pond_map, rows = 3, cols = 3, visibility = 3, radius = 1,
            viewer_x = 1, viewer_y = 1, render_water_edges = True\<rparr>"

text \<open>A single water cell.\<close>

definition puddle_map :: Map where
  "puddle_map = \<lparr>default = ''g'', border = ''b'',
      tiles = [''w'' \<mapsto> ''wtr'', ''g'' \<mapsto> ''grs''], layers = [[''w'']]\<rparr>"

definition puddle :: MapRenderer where
  "puddle = \<lparr>the_map = puddle_map, rows = 1, cols = 1, visibility = 9, radius = 4,
            viewer_x = 0, viewer_y = 0, render_water_edges = True\<rparr>"

text \<open>Two blank levels under a 2 by 2 level with one water cell.\<close>

definition attic_map :: Map where
  "attic_map = \<lparr>default = ''g'', border = ''b'',
      tiles = [''w'' \<mapsto> ''wtr'', ''g'' \<mapsto> ''grs''],
      layers = [[''  '', ''  ''], [''  '', ''  ''], [''gg'', ''wg'']]\<rparr>"

definition attic :: MapRenderer where
  "attic = \<lparr>the_map = attic_map, rows = 2, cols = 2, visibility = 9, radius = 4,
            viewer_x = 0, viewer_y = 0, render_water_edges = True\<rparr>"

text \<open>
  The pond seen through a window of one cell at its center, and the results of the two
  runs of \<open>tile_mapper\<close> there.
\<close>

definition pond_close :: MapRenderer where
  "pond_close = \<lparr>the_map = pond_map, rows = 3, cols = 3, visibility = 1, radius = 0,
                  viewer_x = 1, viewer_y = 1, render_water_edges = True\<rparr>"

definition pond_full_layers :: layer_dict where
  "pond_full_layers =
     [(0, [\<lparr>tx = 0, ty = 0, tz = 0, tile = ''wtr_e'', out_of_bounds = False\<rparr>,
           \<lparr>tx = 0, ty = 40, tz = 0, tile = ''w'', out_of_bounds = False\<rparr>,
           \<lparr>tx = 0, ty = 80, tz = 0, tile = ''w'', out_of_bounds = False\<rparr>,
           \<lparr>tx = 40, ty = 0, tz = 0, tile = ''g'', out_of_bounds = False\<rparr>,
           \<lparr>tx = 40, ty = 40, tz = 0, tile = ''wtr_ne'', out_of_bounds = False\<rparr>,
           \<lparr>tx = 40, ty = 80, tz = 0, tile = ''w'', out_of_bounds = False\<rparr>,
           \<lparr>tx = 80, ty = 0, tz = 0, tile = ''g'', out_of_bounds = False\<rparr>,
           \<lparr>tx = 80, ty = 40, tz = 0, tile = ''g'', out_of_bounds = False\<rparr>,
           \<lparr>tx = 80, ty = 80, tz = 0, tile = ''wtr_n'', out_of_bounds = False\<rparr>]),
      (2, [\<lparr>tx = 0, ty = 40, tz = 0, tile = ''wtrc_b'', out_of_bounds = False\<rparr>]),
      (3, [\<lparr>tx = 40, ty = 40, tz = 0, tile = ''wtrc_b'', out_of_bounds = False\<rparr>]),
      (4, [\<lparr>tx = 40, ty = 80, tz = 0, tile = ''wtrc_b'', out_of_bounds = False\<rparr>])]"

definition pond_close_layers :: layer_dict where
  "pond_close_layers =
     [(1, [\<lparr>tx = 0, ty = 0, tz = 0, tile = ''wtrc_b'', out_of_bounds = False\<rparr>]),
      (0, [\<lparr>tx = 0, ty = 0, tz = 0, tile = ''wtr_ne'', out_of_bounds = False\<rparr>])]"

section \<open>Subscripts and the grid\<close>

lemma subscript_in_range:
  "0 \<le> i \<Longrightarrow> i < int (length seq) \<Longrightarrow> subscript seq i = Inr (seq ! nat i)"
  by (simp add: subscript_def)

lemma subscript_outside:
  "i < - int (length seq) \<or> int (length seq) \<le> i \<Longrightarrow> subscript seq i = Inl IndexError"
  by (auto simp add: subscript_def)

lemma rectangular_level:
  "rectangular self \<Longrightarrow> n < length (layers (the_map self)) \<Longrightarrow>
     int (length (layers (the_map self) ! n)) = rows self"
  by (simp add: rectangular_def list_all_length)

lemma rectangular_row:
  "rectangular self \<Longrightarrow> n < length (layers (the_map self)) \<Longrightarrow>
     k < length (layers (the_map self) ! n) \<Longrightarrow>
     int (length (layers (the_map self) ! n ! k)) = cols self"
  by (simp add: rectangular_def list_all_length)

lemma layers_at_in_grid:
  assumes "rectangular self" and "0 \<le> z" and "z < int (length (layers (the_map self)))"
    and "0 \<le> y" and "y < rows self" and "0 \<le> x" and "x < cols self"
  shows "layers_at (the_map self) z y x = Inr [layers (the_map self) ! nat z ! nat y ! nat x]"
proof -
  have lev: "int (length (layers (the_map self) ! nat z)) = rows self"
    using assms by (intro rectangular_level) auto
  have row: "int (length (layers (the_map self) ! nat z ! nat y)) = cols self"
    using assms lev by (intro rectangular_row) auto
  show ?thesis
    using assms lev row by (simp add: layers_at_def subscript_in_range)
qed

lemma layers_at_from_end:
  assumes "rectangular self" and "z < 0" and "- int (length (layers (the_map self))) \<le> z"
    and "0 \<le> y" and "y < rows self" and "0 \<le> x" and "x < cols self"
  shows "layers_at (the_map self) z y x =
     Inr [layers (the_map self) ! nat (int (length (layers (the_map self))) + z) ! nat y ! nat x]"
proof -
  let ?n = "nat (int (length (layers (the_map self))) + z)"
  have n: "?n < length (layers (the_map self))"
    using assms by auto
  have sub: "subscript (layers (the_map self)) z = Inr (layers (the_map self) ! ?n)"
    using assms by (simp add: subscript_def)
  have lev: "int (length (layers (the_map self) ! ?n)) = rows self"
    using assms(1) n by (rule rectangular_level)
  have row: "int (length (layers (the_map self) ! ?n ! nat y)) = cols self"
    using assms lev n by (intro rectangular_row) auto
  show ?thesis
    using assms sub lev row by (simp add: layers_at_def subscript_in_range)
qed

lemma layers_at_outside:
  "z < - int (length (layers m)) \<or> int (length (layers m)) \<le> z \<Longrightarrow>
     layers_at m z y x = Inl IndexError"
  by (simp add: layers_at_def subscript_outside)

lemma rectangular_pond: "rectangular pond"
  by (simp add: rectangular_def pond_def pond_map_def)

section \<open>The grid accessor\<close>

text \<open>
  Claim C5, as the code has it. Outside the bounds, \<open>get_tile_at\<close> returns the border
  symbol with the flag set, for every \<open>z\<close> and however far outside the coordinates
  are. Inside the bounds of a rectangular map, at a level \<open>z\<close> of the map, it returns
  the symbol \<open>layers[z][y][x]\<close> of the grid with the flag cleared; a \<open>z\<close> below zero,
  down to \<open>-len(layers)\<close>, counts the levels from the last one, as Python's subscript
  does. Inside the bounds with any other \<open>z\<close> there is no symbol to return and the
  subscript raises IndexError.
\<close>

theorem get_tile_at_contract:
  "(x < 0 \<or> y < 0 \<or> cols self \<le> x \<or> rows self \<le> y \<longrightarrow>
      get_tile_at self x y z =
        Inr \<lparr>tx = x, ty = y, tz = z, tile = border (the_map self), out_of_bounds = True\<rparr>) \<and>
   (0 \<le> x \<and> x < cols self \<and> 0 \<le> y \<and> y < rows self \<and> rectangular self \<and>
    0 \<le> z \<and> z < int (length (layers (the_map self))) \<longrightarrow>
      get_tile_at self x y z =
        Inr \<lparr>tx = x, ty = y, tz = z,
             tile = [layers (the_map self) ! nat z ! nat y ! nat x], out_of_bounds = False\<rparr>) \<and>
   (0 \<le> x \<and> x < cols self \<and> 0 \<le> y \<and> y < rows self \<and> rectangular self \<and>
    z < 0 \<and> - int (length (layers (the_map self))) \<le> z \<longrightarrow>
      get_tile_at self x y z =
        Inr \<lparr>tx = x, ty = y, tz = z,
             tile = [layers (the_map self) ! nat (int (length (layers (the_map self))) + z)
                       ! nat y ! nat x],
             out_of_bounds = False\<rparr>) \<and>
   (0 \<le> x \<and> x < cols self \<and> 0 \<le> y \<and> y < rows self \<and>
    (z < - int (length (layers (the_map self))) \<or> int (length (layers (the_map self))) \<le> z) \<longrightarrow>
      get_tile_at self x y z = Inl IndexError)"
  by (auto simp add: get_tile_at_def layers_at_in_grid layers_at_from_end layers_at_outside)

theorem get_tile_at_contract_witness:
  "get_tile_at pond 3 (- 7) 0 =
     Inr \<lparr>tx = 3, ty = - 7, tz = 0, tile = ''b'', out_of_bounds = True\<rparr> \<and>
   get_tile_at pond 1 0 0 =
     Inr \<lparr>tx = 1, ty = 0, tz = 0, tile = ''g'', out_of_bounds = False\<rparr> \<and>
   get_tile_at pond 0 2 (- 1) =
     Inr \<lparr>tx = 0, ty = 2, tz = - 1, tile = ''w'', out_of_bounds = False\<rparr> \<and>
   get_tile_at pond 2 0 (- 2) = Inl IndexError"
  using get_tile_at_contract [of 3 "- 7" pond 0] get_tile_at_contract [of 1 0 pond 0]
    get_tile_at_contract [of 0 2 pond "- 1"] get_tile_at_contract [of 2 0 pond "- 2"]
    rectangular_pond
  by (simp add: pond_def pond_map_def)

text \<open>
  Claim C5 as stated fails: the center of the pond is inside the bounds, the map has one
  level, and at \<open>z = 3\<close> the accessor returns no symbol but raises.
\<close>

theorem get_tile_at_no_symbol_above_the_levels: "get_tile_at pond 1 1 3 = Inl IndexError"
  by (simp add: get_tile_at_def layers_at_def subscript_def pond_def pond_map_def)

lemma list_display_map_Inr: "list_display (map Inr vs) = Inr vs"
  by (induction vs) auto

lemma list_display_Inr_D: "list_display xs = Inr vs \<Longrightarrow> xs = map Inr vs"
  by (induction xs arbitrary: vs rule: list_display.induct) (auto split: sum.splits)

lemma list_display_Inr_iff: "list_display xs = Inr vs \<longleftrightarrow> xs = map Inr vs"
  using list_display_map_Inr list_display_Inr_D by blast

lemma get_tile_at_returns_in_grid:
  assumes "rectangular self" and "- int (length (layers (the_map self))) \<le> z"
    and "z < int (length (layers (the_map self)))"
  shows "\<exists>t. get_tile_at self x y z = Inr t"
proof (cases "x < 0 \<or> y < 0 \<or> cols self \<le> x \<or> rows self \<le> y")
  case True
  then show ?thesis by (auto simp add: get_tile_at_def)
next
  case False
  define n where "n = (if 0 \<le> z then nat z else nat (int (length (layers (the_map self))) + z))"
  have n: "n < length (layers (the_map self))"
    using assms by (auto simp add: n_def)
  have lev: "subscript (layers (the_map self)) z = Inr (layers (the_map self) ! n)"
    using assms by (auto simp add: subscript_def n_def)
  have rws: "int (length (layers (the_map self) ! n)) = rows self"
    using assms(1) n by (rule rectangular_level)
  have row: "int (length (layers (the_map self) ! n ! nat y)) = cols self"
    using assms(1) n rws False by (intro rectangular_row) auto
  show ?thesis
    using False lev rws row
    by (simp add: get_tile_at_def layers_at_def subscript_in_range)
qed

text \<open>
  Claim C3, as the code has it. \<open>get_tile_at\<close> checks \<open>x\<close> and \<open>y\<close> only: outside the
  bounds it returns for every \<open>z\<close>; on a rectangular map it returns for every \<open>x\<close> and
  \<open>y\<close> when \<open>z\<close> is a subscript the list of levels accepts, from \<open>-len\<close> to \<open>len - 1\<close>;
  inside the bounds with any other \<open>z\<close> it raises IndexError.
\<close>

theorem get_tile_at_raises_only_on_z:
  "(x < 0 \<or> y < 0 \<or> cols self \<le> x \<or> rows self \<le> y \<longrightarrow>
      (\<exists>t. get_tile_at self x y z = Inr t)) \<and>
   (rectangular self \<and> - int (length (layers (the_map self))) \<le> z \<and>
    z < int (length (layers (the_map self))) \<longrightarrow>
      (\<exists>t. get_tile_at self x y z = Inr t)) \<and>
   (0 \<le> x \<and> x < cols self \<and> 0 \<le> y \<and> y < rows self \<and>
    (z < - int (length (layers (the_map self))) \<or> int (length (layers (the_map self))) \<le> z) \<longrightarrow>
      get_tile_at self x y z = Inl IndexError)"
  using get_tile_at_returns_in_grid [of self z x y]
  by (auto simp add: get_tile_at_def layers_at_outside)

theorem get_tile_at_raises_only_on_z_witness:
  "(\<exists>t. get_tile_at pond (- 1) 7 12 = Inr t) \<and> (\<exists>t. get_tile_at pond 2 2 (- 1) = Inr t) \<and>
   get_tile_at pond 2 2 1 = Inl IndexError"
  using get_tile_at_raises_only_on_z [of "- 1" 7 pond 12]
    get_tile_at_raises_only_on_z [of 2 2 pond "- 1"]
    get_tile_at_raises_only_on_z [of 2 2 pond 1] rectangular_pond
  by (simp add: pond_def pond_map_def)

text \<open>
  Claim C3 as stated fails: on the one-cell map, the cell \<open>(0, 0)\<close> is inside the bounds
  and \<open>z = 1\<close> is no level, so the subscript raises.
\<close>

theorem get_tile_at_raises: "get_tile_at puddle 0 0 1 = Inl IndexError"
  by (simp add: get_tile_at_def layers_at_def subscript_def puddle_def puddle_map_def)

section \<open>The neighbor resolver\<close>

lemma get_neighbors_Inr_iff:
  "get_neighbors self x y z = Inr ns \<longleftrightarrow>
      (\<exists>n s e w nw sw se ne. ns = [n, s, e, w, nw, sw, se, ne] \<and>
         get_tile_at self x (y - 1) z = Inr n \<and>
         get_tile_at self x (y + 1) z = Inr s \<and>
         get_tile_at self (x + 1) y z = Inr e \<and>
         get_tile_at self (x - 1) y z = Inr w \<and>
         get_tile_at self (x - 1) (y - 1) z = Inr nw \<and>
         get_tile_at self (x - 1) (y + 1) z = Inr sw \<and>
         get_tile_at self (x + 1) (y + 1) z = Inr se \<and>
         get_tile_at self (x + 1) (y - 1) z = Inr ne)"
  unfolding get_neighbors_def list_display_Inr_iff by auto

lemma get_neighbors_returns:
  assumes "rectangular self" and "- int (length (layers (the_map self))) \<le> z"
    and "z < int (length (layers (the_map self)))"
  shows "\<exists>ns. get_neighbors self x y z = Inr ns \<and> length ns = 8"
proof -
  have "\<exists>t. get_tile_at self x' y' z = Inr t" for x' y'
    using assms by (rule get_tile_at_returns_in_grid)
  then obtain n s e w nw sw se ne where
    "get_tile_at self x (y - 1) z = Inr n" "get_tile_at self x (y + 1) z = Inr s"
    "get_tile_at self (x + 1) y z = Inr e" "get_tile_at self (x - 1) y z = Inr w"
    "get_tile_at self (x - 1) (y - 1) z = Inr nw" "get_tile_at self (x - 1) (y + 1) z = Inr sw"
    "get_tile_at self (x + 1) (y + 1) z = Inr se" "get_tile_at self (x + 1) (y - 1) z = Inr ne"
    by meson
  then have "get_neighbors self x y z = Inr [n, s, e, w, nw, sw, se, ne]"
    by (simp add: get_neighbors_def)
  then show ?thesis by simp
qed


lemma get_tile_at_error:
  "get_tile_at self x y z = Inl e \<Longrightarrow> e = IndexError"
  by (auto simp add: get_tile_at_def layers_at_def subscript_def split: if_splits sum.splits)

lemma list_display_error:
  "list_display xs = Inl e \<Longrightarrow> Inl e \<in> set xs"
  by (induction xs rule: list_display.induct) (auto split: sum.splits)

lemma list_display_raises:
  "Inl e \<in> set xs \<Longrightarrow> \<exists>e'. list_display xs = Inl e'"
  by (induction xs rule: list_display.induct) (auto split: sum.splits)

lemma get_neighbors_raises:
  assumes "z < - int (length (layers (the_map self))) \<or> int (length (layers (the_map self))) \<le> z"
    and "\<exists>p \<in> set [(x, y - 1), (x, y + 1), (x + 1, y), (x - 1, y),
                     (x - 1, y - 1), (x - 1, y + 1), (x + 1, y + 1), (x + 1, y - 1)].
           0 \<le> fst p \<and> fst p < cols self \<and> 0 \<le> snd p \<and> snd p < rows self"
  shows "get_neighbors self x y z = Inl IndexError"
proof -
  let ?calls = "[get_tile_at self x (y - 1) z, get_tile_at self x (y + 1) z,
      get_tile_at self (x + 1) y z, get_tile_at self (x - 1) y z,
      get_tile_at self (x - 1) (y - 1) z, get_tile_at self (x - 1) (y + 1) z,
      get_tile_at self (x + 1) (y + 1) z, get_tile_at self (x + 1) (y - 1) z]"
  have inside: "0 \<le> x' \<and> x' < cols self \<and> 0 \<le> y' \<and> y' < rows self \<Longrightarrow>
      get_tile_at self x' y' z = Inl IndexError" for x' y'
    using assms(1) by (auto simp add: get_tile_at_def layers_at_outside)
  have "Inl IndexError \<in> set ?calls"
    using assms(2) inside by auto
  then obtain e where e: "list_display ?calls = Inl e"
    using list_display_raises by blast
  then have "Inl e \<in> set ?calls"
    by (rule list_display_error)
  then have "e = IndexError"
    using get_tile_at_error by auto
  then show ?thesis
    using e by (simp add: get_neighbors_def)
qed

text \<open>
  Claim C8, as the code has it. \<open>get_neighbors\<close> returns a list exactly when the eight
  calls of the grid accessor return, and then the list is their eight results in the
  order N, S, E, W, NW, SW, SE, NE, at \<open>(x, y - 1)\<close>, \<open>(x, y + 1)\<close>, \<open>(x + 1, y)\<close>,
  \<open>(x - 1, y)\<close>, \<open>(x - 1, y - 1)\<close>, \<open>(x - 1, y + 1)\<close>, \<open>(x + 1, y + 1)\<close>,
  \<open>(x + 1, y - 1)\<close>, all at the same \<open>z\<close>. On a rectangular map it does return, for
  every \<open>x\<close> and \<open>y\<close>, when \<open>z\<close> is a subscript the list of levels accepts, from
  \<open>-len\<close> to \<open>len - 1\<close>; it raises IndexError when \<open>z\<close> is none and one of the eight
  neighbors is inside the bounds.
\<close>

theorem get_neighbors_order:
  "(get_neighbors self x y z = Inr ns \<longleftrightarrow>
      (\<exists>n s e w nw sw se ne. ns = [n, s, e, w, nw, sw, se, ne] \<and>
         get_tile_at self x (y - 1) z = Inr n \<and>
         get_tile_at self x (y + 1) z = Inr s \<and>
         get_tile_at self (x + 1) y z = Inr e \<and>
         get_tile_at self (x - 1) y z = Inr w \<and>
         get_tile_at self (x - 1) (y - 1) z = Inr nw \<and>
         get_tile_at self (x - 1) (y + 1) z = Inr sw \<and>
         get_tile_at self (x + 1) (y + 1) z = Inr se \<and>
         get_tile_at self (x + 1) (y - 1) z = Inr ne)) \<and>
   (rectangular self \<and> - int (length (layers (the_map self))) \<le> z \<and>
    z < int (length (layers (the_map self))) \<longrightarrow>
      (\<exists>ns'. get_neighbors self x y z = Inr ns' \<and> length ns' = 8)) \<and>
   ((z < - int (length (layers (the_map self))) \<or> int (length (layers (the_map self))) \<le> z) \<and>
    (\<exists>p \<in> set [(x, y - 1), (x, y + 1), (x + 1, y), (x - 1, y),
                  (x - 1, y - 1), (x - 1, y + 1), (x + 1, y + 1), (x + 1, y - 1)].
       0 \<le> fst p \<and> fst p < cols self \<and> 0 \<le> snd p \<and> snd p < rows self) \<longrightarrow>
      get_neighbors self x y z = Inl IndexError)"
  using get_neighbors_Inr_iff [of self x y z ns] get_neighbors_returns [of self z x y]
    get_neighbors_raises [where self = self and z = z and x = x and y = y]
  by blast

theorem get_neighbors_order_witness:
  "get_neighbors pond 1 1 0 =
     Inr [\<lparr>tx = 1, ty = 0, tz = 0, tile = ''g'', out_of_bounds = False\<rparr>,
          \<lparr>tx = 1, ty = 2, tz = 0, tile = ''w'', out_of_bounds = False\<rparr>,
          \<lparr>tx = 2, ty = 1, tz = 0, tile = ''g'', out_of_bounds = False\<rparr>,
          \<lparr>tx = 0, ty = 1, tz = 0, tile = ''w'', out_of_bounds = False\<rparr>,
          \<lparr>tx = 0, ty = 0, tz = 0, tile = ''w'', out_of_bounds = False\<rparr>,
          \<lparr>tx = 0, ty = 2, tz = 0, tile = ''w'', out_of_bounds = False\<rparr>,
          \<lparr>tx = 2, ty = 2, tz = 0, tile = ''w'', out_of_bounds = False\<rparr>,
          \<lparr>tx = 2, ty = 0, tz = 0, tile = ''g'', out_of_bounds = False\<rparr>] \<and>
   rectangular pond \<and> (\<exists>ns'. get_neighbors pond 1 1 0 = Inr ns' \<and> length ns' = 8) \<and>
   get_neighbors pond 0 0 (- 2) = Inl IndexError"
proof -
  have t: "get_tile_at pond 1 0 0 = Inr \<lparr>tx = 1, ty = 0, tz = 0, tile = ''g'', out_of_bounds = False\<rparr>"
    "get_tile_at pond 1 2 0 = Inr \<lparr>tx = 1, ty = 2, tz = 0, tile = ''w'', out_of_bounds = False\<rparr>"
    "get_tile_at pond 2 1 0 = Inr \<lparr>tx = 2, ty = 1, tz = 0, tile = ''g'', out_of_bounds = False\<rparr>"
    "get_tile_at pond 0 1 0 = Inr \<lparr>tx = 0, ty = 1, tz = 0, tile = ''w'', out_of_bounds = False\<rparr>"
    "get_tile_at pond 0 0 0 = Inr \<lparr>tx = 0, ty = 0, tz = 0, tile = ''w'', out_of_bounds = False\<rparr>"
    "get_tile_at pond 0 2 0 = Inr \<lparr>tx = 0, ty = 2, tz = 0, tile = ''w'', out_of_bounds = False\<rparr>"
    "get_tile_at pond 2 2 0 = Inr \<lparr>tx = 2, ty = 2, tz = 0, tile = ''w'', out_of_bounds = False\<rparr>"
    "get_tile_at pond 2 0 0 = Inr \<lparr>tx = 2, ty = 0, tz = 0, tile = ''g'', out_of_bounds = False\<rparr>"
    by (simp_all add: get_tile_at_def layers_at_def subscript_def pond_def pond_map_def)
  show ?thesis
    using get_neighbors_order [of pond 1 1 0] get_neighbors_order [of pond 0 0 "- 2"]
      t rectangular_pond
    by (simp add: pond_def pond_map_def)
qed

text \<open>
  Claim C8 as stated fails: the pond has one level, and at \<open>z = 5\<close> the first accessor
  call, for the neighbor to the north of the center, raises; no list is returned.
\<close>

theorem get_neighbors_raises_above_the_levels: "get_neighbors pond 1 1 5 = Inl IndexError"
  by (simp add: get_neighbors_def get_tile_at_def layers_at_def subscript_def pond_def
      pond_map_def)

section \<open>Construction\<close>

lemma levels_loop_no_cells: "levels_loop self x_origin y_origin [] zs ls = Inr ls"
  by (induction zs) auto

lemma or_one_div_two: "((v::int) OR 1) div 2 * 2 + 1 = v OR 1"
  by (simp add: or_one_eq) presburger

lemma or_one_negative: "(v::int) < 0 \<Longrightarrow> v OR 1 < 0"
  by (simp add: or_one_eq) presburger


lemma init_Inr:
  "layers m \<noteq> [] \<Longrightarrow> hd (layers m) \<noteq> [] \<Longrightarrow>
     init m x y vis edges =
       Inr \<lparr>the_map = m, rows = int (length (hd (layers m))),
            cols = int (length (hd (hd (layers m)))),
            visibility = vis OR 1, radius = (vis OR 1) div 2,
            viewer_x = x, viewer_y = y, render_water_edges = edges\<rparr>"
  by (cases "layers m"; cases "hd (layers m)") (auto simp add: init_def subscript_def)

lemma init_fields:
  "init m x y vis edges = Inr self \<Longrightarrow>
     the_map self = m \<and> rows self = int (length (hd (layers m))) \<and>
     cols self = int (length (hd (hd (layers m)))) \<and>
     visibility self = vis OR 1 \<and> radius self = (vis OR 1) div 2 \<and>
     viewer_x self = x \<and> viewer_y self = y \<and> render_water_edges self = edges"
  by (cases "layers m"; cases "hd (layers m)")
     (auto simp add: init_def subscript_def split: if_splits)

lemma empty_window:
  assumes "radius self < 0"
  shows "tile_mapper self False = Inr []"
proof -
  have "range_py (x_origin_of self False) (x_max_of self False) = []"
    using assms by (simp add: range_py_def x_origin_of_def x_max_of_def)
  then show ?thesis
    by (simp add: tile_mapper_def levels_loop_no_cells)
qed

text \<open>
  Claim C4, as the code has it. \<open>__init__\<close> validates nothing: on a map with a first
  level and a first row it returns for every visibility and every viewer position. The
  window of the renderer is \<open>visibility | 1\<close> cells wide and high, wherever the viewer
  stands; with a visibility below zero both ranges are empty and \<open>tile_mapper\<close> returns
  the empty dict, without an error.
\<close>

theorem init_never_rejects:
  "(layers m \<noteq> [] \<and> hd (layers m) \<noteq> [] \<longrightarrow> (\<exists>self. init m x y vis edges = Inr self)) \<and>
   (init m x y vis edges = Inr self \<longrightarrow>
      visibility self = vis OR 1 \<and> radius self = (vis OR 1) div 2 \<and>
      x_max_of self False - x_origin_of self False = vis OR 1 \<and>
      y_max_of self False - y_origin_of self False = vis OR 1 \<and>
      (vis < 0 \<longrightarrow> tile_mapper self False = Inr []))"
proof (intro conjI impI)
  assume "layers m \<noteq> [] \<and> hd (layers m) \<noteq> []"
  then show "\<exists>self. init m x y vis edges = Inr self"
    by (simp add: init_Inr)
next
  assume a: "init m x y vis edges = Inr self"
  then show "visibility self = vis OR 1" and r: "radius self = (vis OR 1) div 2"
    by (simp_all add: init_fields)
  show "x_max_of self False - x_origin_of self False = vis OR 1"
    using r or_one_div_two [of vis] by (simp add: x_max_of_def x_origin_of_def)
  show "y_max_of self False - y_origin_of self False = vis OR 1"
    using r or_one_div_two [of vis] by (simp add: y_max_of_def y_origin_of_def)
  assume "vis < 0"
  then have "radius self < 0"
    using r or_one_negative [of vis] by simp
  then show "tile_mapper self False = Inr []"
    by (rule empty_window)
qed

theorem init_never_rejects_witness:
  "init puddle_map 0 0 (- 4) True =
     Inr \<lparr>the_map = puddle_map, rows = 1, cols = 1, visibility = - 3, radius = - 2,
          viewer_x = 0, viewer_y = 0, render_water_edges = True\<rparr> \<and>
   tile_mapper \<lparr>the_map = puddle_map, rows = 1, cols = 1, visibility = - 3, radius = - 2,
          viewer_x = 0, viewer_y = 0, render_water_edges = True\<rparr> False = Inr []"
proof -
  have i: "init puddle_map 0 0 (- 4) True =
     Inr \<lparr>the_map = puddle_map, rows = 1, cols = 1, visibility = - 3, radius = - 2,
          viewer_x = 0, viewer_y = 0, render_water_edges = True\<rparr>"
    by (simp add: init_def subscript_def puddle_map_def or_one_eq)
  show ?thesis
    using init_never_rejects [of puddle_map 0 0 "- 4" True
      "\<lparr>the_map = puddle_map, rows = 1, cols = 1, visibility = - 3, radius = - 2,
          viewer_x = 0, viewer_y = 0, render_water_edges = True\<rparr>"] i
    by simp
qed

text \<open>
  Claim C4 as stated fails: the visibility 0 is accepted, made 1, and the one-cell
  window gives a tile.
\<close>

theorem init_accepts_visibility_zero:
  "init puddle_map 0 0 0 True =
     Inr \<lparr>the_map = puddle_map, rows = 1, cols = 1, visibility = 1, radius = 0,
          viewer_x = 0, viewer_y = 0, render_water_edges = True\<rparr> \<and>
   tile_mapper \<lparr>the_map = puddle_map, rows = 1, cols = 1, visibility = 1, radius = 0,
          viewer_x = 0, viewer_y = 0, render_water_edges = True\<rparr> False =
     Inr [(0, [\<lparr>tx = 0, ty = 0, tz = 0, tile = ''w'', out_of_bounds = False\<rparr>])]"
proof
  show "init puddle_map 0 0 0 True =
     Inr \<lparr>the_map = puddle_map, rows = 1, cols = 1, visibility = 1, radius = 0,
          viewer_x = 0, viewer_y = 0, render_water_edges = True\<rparr>"
    by (simp add: init_def subscript_def puddle_map_def)
  show "tile_mapper \<lparr>the_map = puddle_map, rows = 1, cols = 1, visibility = 1, radius = 0,
          viewer_x = 0, viewer_y = 0, render_water_edges = True\<rparr> False =
     Inr [(0, [\<lparr>tx = 0, ty = 0, tz = 0, tile = ''w'', out_of_bounds = False\<rparr>])]"
    by code_simp
qed

section \<open>The layer assembler on the examples\<close>

text \<open>
  Claim C1, at the pond. With the edges on, \<open>tile_mapper\<close> gives the nine tiles of the
  map and three caps; with \<open>render_water_edges\<close> off, the \<open>continue\<close> of line 175 leaves
  the loop body before the append of line 228, and the dict stays empty: no plain water
  tile and no grass tile either.
\<close>

theorem edges_off_drops_every_tile:
  "tile_mapper pond True =
     Inr [(0, [\<lparr>tx = 0, ty = 0, tz = 0, tile = ''wtr_e'', out_of_bounds = False\<rparr>,
               \<lparr>tx = 0, ty = 40, tz = 0, tile = ''w'', out_of_bounds = False\<rparr>,
               \<lparr>tx = 0, ty = 80, tz = 0, tile = ''w'', out_of_bounds = False\<rparr>,
               \<lparr>tx = 40, ty = 0, tz = 0, tile = ''g'', out_of_bounds = False\<rparr>,
               \<lparr>tx = 40, ty = 40, tz = 0, tile = ''wtr_ne'', out_of_bounds = False\<rparr>,
               \<lparr>tx = 40, ty = 80, tz = 0, tile = ''w'', out_of_bounds = False\<rparr>,
               \<lparr>tx = 80, ty = 0, tz = 0, tile = ''g'', out_of_bounds = False\<rparr>,
               \<lparr>tx = 80, ty = 40, tz = 0, tile = ''g'', out_of_bounds = False\<rparr>,
               \<lparr>tx = 80, ty = 80, tz = 0, tile = ''wtr_n'', out_of_bounds = False\<rparr>]),
          (2, [\<lparr>tx = 0, ty = 40, tz = 0, tile = ''wtrc_b'', out_of_bounds = False\<rparr>]),
          (3, [\<lparr>tx = 40, ty = 40, tz = 0, tile = ''wtrc_b'', out_of_bounds = False\<rparr>]),
          (4, [\<lparr>tx = 40, ty = 80, tz = 0, tile = ''wtrc_b'', out_of_bounds = False\<rparr>])] \<and>
   tile_mapper (pond\<lparr>render_water_edges := False\<rparr>) True = Inr []"
  by code_simp

text \<open>
  Claim C2, at the attic. The first tile of the run goes to the key 2, the level of the
  cell; the dict then has one key, so the cap of the water cell goes to
  \<open>len(layers) + 1 = 2\<close> as well: a key in use, the one of the main content of its own
  level, and before the water tile it decorates.
\<close>

theorem cap_lands_in_main_layer:
  "tile_mapper attic True =
     Inr [(2, [\<lparr>tx = 0, ty = 0, tz = 2, tile = ''g'', out_of_bounds = False\<rparr>,
               \<lparr>tx = 0, ty = 40, tz = 2, tile = ''wtrc_b'', out_of_bounds = False\<rparr>,
               \<lparr>tx = 0, ty = 40, tz = 2, tile = ''wtr_ne'', out_of_bounds = False\<rparr>,
               \<lparr>tx = 40, ty = 0, tz = 2, tile = ''g'', out_of_bounds = False\<rparr>,
               \<lparr>tx = 40, ty = 40, tz = 2, tile = ''g'', out_of_bounds = False\<rparr>])]"
  by code_simp

section \<open>The edge and cap classifier\<close>

lemma water_lookup_code: "i < 4 \<Longrightarrow> water_lookup i = Some [''nsew'' ! i]"
proof -
  assume "i < 4"
  then consider "i = 0" | "i = 1" | "i = 2" | "i = 3" by linarith
  then show ?thesis by cases (simp_all add: water_lookup_def)
qed

lemma water_edges_loop_codes:
  "water_edges_loop m pairs acc = Inr res \<Longrightarrow> \<forall>p \<in> set pairs. fst p < 4 \<Longrightarrow>
     concat res = concat acc @ concat (map (\<lambda>p. edge_code m (snd p) (''nsew'' ! fst p)) pairs)"
proof (induction pairs arbitrary: acc)
  case Nil
  then show ?case by simp
next
  case (Cons p pairs)
  obtain i nb where p: "p = (i, nb)" by (cases p)
  have i: "water_lookup i = Some [''nsew'' ! i]"
    using Cons.prems(2) p by (simp add: water_lookup_code)
  show ?case
  proof (cases "non_canceling m nb")
    case True
    then have "water_edges_loop m pairs (acc @ [[''nsew'' ! i]]) = Inr res"
      using Cons.prems(1) p i
      by (auto simp add: non_canceling_def split: sum.splits if_splits)
    then have "concat res = concat (acc @ [[''nsew'' ! i]]) @
        concat (map (\<lambda>p. edge_code m (snd p) (''nsew'' ! fst p)) pairs)"
      using Cons.prems(2) by (intro Cons.IH) auto
    then show ?thesis using True p by (simp add: edge_code_def)
  next
    case False
    then have "water_edges_loop m pairs acc = Inr res"
      using Cons.prems(1) p i
      by (auto simp add: non_canceling_def WATER_EDGE_CANCELERS_def split: sum.splits if_splits)
    then have "concat res = concat acc @
        concat (map (\<lambda>p. edge_code m (snd p) (''nsew'' ! fst p)) pairs)"
      using Cons.prems(2) by (intro Cons.IH) auto
    then show ?thesis using False p by (simp add: edge_code_def)
  qed
qed

lemma caps_loop_places:
  "caps_loop m ordinal x_out y_out z pairs ls = Inr ls' \<Longrightarrow>
   \<forall>p \<in> set pairs. fst p < length ordinal \<Longrightarrow>
     ls' = place_caps ls
             (concat (map (\<lambda>p. cap_if m (ordinal ! fst p) x_out y_out z (snd p)) pairs))"
proof (induction pairs arbitrary: ls)
  case Nil
  then show ?case by (simp add: place_caps_def)
next
  case (Cons p pairs)
  obtain i letter where p: "p = (i, letter)" by (cases p)
  have s: "subscript ordinal (int i) = Inr (ordinal ! i)"
    using Cons.prems(2) p by (simp add: subscript_def)
  let ?rest = "concat (map (\<lambda>p. cap_if m (ordinal ! fst p) x_out y_out z (snd p)) pairs)"
  show ?case
  proof (cases "non_canceling m (ordinal ! i)")
    case True
    let ?cap = "\<lparr>tx = x_out, ty = y_out, tz = z, tile = ''wtrc_'' @ [letter], out_of_bounds = False\<rparr>"
    have "caps_loop m ordinal x_out y_out z pairs (dict_append ls (int (length ls) + 1) ?cap) = Inr ls'"
      using Cons.prems(1) p s True
      by (auto simp add: non_canceling_def split: sum.splits if_splits)
    then have "ls' = place_caps (dict_append ls (int (length ls) + 1) ?cap) ?rest"
      using Cons.prems(2) by (intro Cons.IH) auto
    then show ?thesis using True p by (simp add: cap_if_def place_caps_def)
  next
    case False
    have "caps_loop m ordinal x_out y_out z pairs ls = Inr ls'"
      using Cons.prems(1) p s False
      by (auto simp add: non_canceling_def split: sum.splits if_splits)
    then have "ls' = place_caps ls ?rest"
      using Cons.prems(2) by (intro Cons.IH) auto
    then show ?thesis using False p by (simp add: cap_if_def place_caps_def)
  qed
qed

lemma water_branch_Inr:
  assumes "water_branch self x y z x_out y_out symbol ls = Inr (name, ls2)"
  shows "\<exists>ns. get_neighbors self x y z = Inr ns \<and> length ns = 8 \<and>
           name = (if edge_codes (the_map self) ns \<noteq> []
                   then ''wtr_'' @ edge_codes (the_map self) ns else symbol) \<and>
           ls2 = place_caps ls (caps_of (the_map self) ns x_out y_out z)"
proof -
  obtain ns where ns: "get_neighbors self x y z = Inr ns"
    using assms by (auto simp add: water_branch_def split: sum.splits)
  then obtain n s e w nw sw se ne where l: "ns = [n, s, e, w, nw, sw, se, ne]"
    by (auto simp add: get_neighbors_Inr_iff)
  have e4: "enumerate 0 (take 4 ns) = [(0, n), (1, s), (2, e), (3, w)]"
    and d4: "drop 4 ns = [nw, sw, se, ne]"
    using l by simp_all
  have ac: "enumerate 0 ''acdb'' = [(0, CHR ''a''), (1, CHR ''c''), (2, CHR ''d''), (3, CHR ''b'')]"
    by simp
  obtain res where res:
    "water_edges_loop (the_map self) (enumerate 0 (take 4 ns)) [] = Inr res"
    and caps: "caps_loop (the_map self) (drop 4 ns) x_out y_out z (enumerate 0 ''acdb'') ls = Inr ls2"
    and name: "name = (if concat res \<noteq> [] then ''wtr_'' @ concat res else symbol)"
    using assms ns unfolding water_branch_def
    by (auto simp del: water_edges_loop.simps caps_loop.simps enumerate_simps
          split: sum.splits)
  have "concat res = edge_codes (the_map self) ns"
    using water_edges_loop_codes [OF res] l unfolding e4 by (simp add: edge_codes_def)
  moreover have "ls2 = place_caps ls (caps_of (the_map self) ns x_out y_out z)"
    using caps_loop_places [OF caps] l unfolding d4 ac by (simp add: caps_of_def)
  ultimately show ?thesis using ns l name by simp
qed

lemma water_cell_body:
  assumes "water_cell self x y z symbol"
    and "cell_body self x_origin y_origin z (x, y) ls = Inr ls'"
  shows "\<exists>ns. get_neighbors self x y z = Inr ns \<and> length ns = 8 \<and>
           ls' = dict_append
                   (place_caps ls (caps_of (the_map self) ns
                      ((x - x_origin) * TILE_SIZE) ((y - y_origin) * TILE_SIZE) z))
                   z
                   \<lparr>tx = (x - x_origin) * TILE_SIZE, ty = (y - y_origin) * TILE_SIZE, tz = z,
                    tile = (if edge_codes (the_map self) ns \<noteq> []
                            then ''wtr_'' @ edge_codes (the_map self) ns else symbol),
                    out_of_bounds = False\<rparr>"
proof -
  obtain name ls2 where w: "water_branch self x y z ((x - x_origin) * TILE_SIZE)
      ((y - y_origin) * TILE_SIZE) symbol ls = Inr (name, ls2)"
    and l: "ls' = dict_append ls2 z
         \<lparr>tx = (x - x_origin) * TILE_SIZE, ty = (y - y_origin) * TILE_SIZE, tz = z,
          tile = name, out_of_bounds = False\<rparr>"
    using assms by (auto simp add: water_cell_def cell_body_def Let_def split: sum.splits)
  show ?thesis
    using water_branch_Inr [OF w] l by auto
qed

lemma subseq_edge_codes: "subseq (edge_codes m ns) ''nsew''"
  by (simp add: edge_codes_def edge_code_def)

lemma distinct_edge_codes: "distinct (edge_codes m ns)"
  by (simp add: edge_codes_def edge_code_def)

lemma edge_codes_mem:
  "i < 4 \<Longrightarrow> ''nsew'' ! i \<in> set (edge_codes m ns) \<longleftrightarrow> non_canceling m (ns ! i)"
proof -
  assume "i < 4"
  then consider "i = 0" | "i = 1" | "i = 2" | "i = 3" by linarith
  then show ?thesis
    by cases (auto simp add: edge_codes_def edge_code_def)
qed

lemma tiles_get_or_default_returns:
  "tiles m (default m) \<noteq> None \<Longrightarrow> \<exists>v. tiles_get_or_default m s = Inr v"
  by (auto simp add: tiles_get_or_default_def)

lemma water_edges_loop_returns:
  "tiles m (default m) \<noteq> None \<Longrightarrow> \<forall>p \<in> set pairs. fst p < 4 \<Longrightarrow>
     \<exists>res. water_edges_loop m pairs acc = Inr res"
proof (induction pairs arbitrary: acc)
  case Nil
  then show ?case by simp
next
  case (Cons p pairs)
  obtain i nb where p: "p = (i, nb)" by (cases p)
  have i: "water_lookup i = Some [''nsew'' ! i]"
    using Cons.prems(2) p by (simp add: water_lookup_code)
  obtain v where v: "tiles_get_or_default m (tile nb) = Inr v"
    using Cons.prems(1) tiles_get_or_default_returns by blast
  have "\<exists>res. water_edges_loop m pairs acc' = Inr res" for acc'
    using Cons.prems by (intro Cons.IH) auto
  then show ?case
    using p i v by simp
qed

lemma caps_loop_returns:
  "tiles m (default m) \<noteq> None \<Longrightarrow> \<forall>p \<in> set pairs. fst p < length ordinal \<Longrightarrow>
     \<exists>ls'. caps_loop m ordinal x_out y_out z pairs ls = Inr ls'"
proof (induction pairs arbitrary: ls)
  case Nil
  then show ?case by simp
next
  case (Cons p pairs)
  obtain i letter where p: "p = (i, letter)" by (cases p)
  have s: "subscript ordinal (int i) = Inr (ordinal ! i)"
    using Cons.prems(2) p by (simp add: subscript_def)
  obtain v where v: "tiles_get_or_default m (tile (ordinal ! i)) = Inr v"
    using Cons.prems(1) tiles_get_or_default_returns by blast
  have "\<exists>ls'. caps_loop m ordinal x_out y_out z pairs ks = Inr ls'" for ks
    using Cons.prems by (intro Cons.IH) auto
  then show ?case
    using p s v by simp
qed

lemma water_branch_returns:
  assumes "rectangular self" and "tiles (the_map self) (default (the_map self)) \<noteq> None"
    and "0 \<le> z" and "z < int (length (layers (the_map self)))"
  shows "\<exists>r. water_branch self x y z x_out y_out symbol ls = Inr r"
proof -
  obtain ns where ns: "get_neighbors self x y z = Inr ns" and len: "length ns = 8"
    using get_neighbors_returns [of self z x y] assms by force
  have "\<forall>p \<in> set (enumerate 0 (take 4 ns)). fst p < 4"
    by (auto simp add: in_set_enumerate_eq)
  then obtain res where res:
    "water_edges_loop (the_map self) (enumerate 0 (take 4 ns)) [] = Inr res"
    using water_edges_loop_returns [OF assms(2)] by blast
  have "\<forall>p \<in> set (enumerate 0 ''acdb''). fst p < length (drop 4 ns)"
    using len by simp
  then obtain ls2 where
    "caps_loop (the_map self) (drop 4 ns) x_out y_out z (enumerate 0 ''acdb'') ls = Inr ls2"
    using caps_loop_returns [OF assms(2)] by blast
  then show ?thesis
    using ns res unfolding water_branch_def
    by (simp del: water_edges_loop.simps caps_loop.simps enumerate_simps)
qed

lemma cell_body_returns:
  assumes "rectangular self" and "tiles (the_map self) (default (the_map self)) \<noteq> None"
    and "0 \<le> z" and "z < int (length (layers (the_map self)))"
  shows "\<exists>ls'. cell_body self x_origin y_origin z p ls = Inr ls'"
proof (cases "fst p < 0 \<or> snd p < 0 \<or> cols self \<le> fst p \<or> rows self \<le> snd p")
  case True
  then show ?thesis by (auto simp add: cell_body_def Let_def)
next
  case False
  then have "\<exists>symbol. layers_at (the_map self) z (snd p) (fst p) = Inr symbol"
    using assms by (simp add: layers_at_in_grid)
  then obtain symbol where s: "layers_at (the_map self) z (snd p) (fst p) = Inr symbol" ..
  obtain r where "water_branch self (fst p) (snd p) z ((fst p - x_origin) * TILE_SIZE)
      ((snd p - y_origin) * TILE_SIZE) symbol ls = Inr r"
    using water_branch_returns [OF assms] by blast
  then show ?thesis
    using False s by (cases r) (simp add: cell_body_def Let_def)
qed

lemma pond_center:
  "water_cell pond 1 1 0 ''w''"
  "cell_body pond 0 0 0 (1, 1) [] =
     Inr [(1, [\<lparr>tx = 40, ty = 40, tz = 0, tile = ''wtrc_b'', out_of_bounds = False\<rparr>]),
          (0, [\<lparr>tx = 40, ty = 40, tz = 0, tile = ''wtr_ne'', out_of_bounds = False\<rparr>])]"
  "tiles (the_map pond) (default (the_map pond)) \<noteq> None"
  "(0::int) < int (length (layers (the_map pond)))"
proof -
  show "water_cell pond 1 1 0 ''w''"
    by (simp add: water_cell_def layers_at_def subscript_def pond_def pond_map_def)
  show "cell_body pond 0 0 0 (1, 1) [] =
     Inr [(1, [\<lparr>tx = 40, ty = 40, tz = 0, tile = ''wtrc_b'', out_of_bounds = False\<rparr>]),
          (0, [\<lparr>tx = 40, ty = 40, tz = 0, tile = ''wtr_ne'', out_of_bounds = False\<rparr>])]"
    by code_simp
  show "tiles (the_map pond) (default (the_map pond)) \<noteq> None"
    "(0::int) < int (length (layers (the_map pond)))"
    by (simp_all add: pond_def pond_map_def)
qed

text \<open>
  Claim C6. When the loop body returns at a water cell processed with edge rendering
  enabled, the neighbors were resolved and the edge codes are a subsequence of \<open>nsew\<close>
  without a repeated letter, a cardinal neighbor outside the bounds contributes no code,
  and the tile appended last is \<open>wtr_\<close> followed by the codes when there are codes, the
  symbol of the water cell itself otherwise, for which \<open>get_tile\<close> opens the plain water
  sprite \<open>wtr.gif\<close>. On a rectangular map whose default symbol has a sprite, at a level
  of the map, the loop body does return.
\<close>

theorem water_cell_edge_codes:
  "(water_cell self x y z symbol \<and> cell_body self x_origin y_origin z (x, y) ls = Inr ls' \<longrightarrow>
      get_tile_img (the_map self) symbol = ''wtr.gif'' \<and>
      (\<exists>ns ls2. get_neighbors self x y z = Inr ns \<and>
         subseq (edge_codes (the_map self) ns) ''nsew'' \<and>
         distinct (edge_codes (the_map self) ns) \<and>
         (\<forall>i<4. out_of_bounds (ns ! i) \<longrightarrow> ''nsew'' ! i \<notin> set (edge_codes (the_map self) ns)) \<and>
         ls' = dict_append ls2 z
                 \<lparr>tx = (x - x_origin) * TILE_SIZE, ty = (y - y_origin) * TILE_SIZE, tz = z,
                  tile = (if edge_codes (the_map self) ns \<noteq> []
                          then ''wtr_'' @ edge_codes (the_map self) ns else symbol),
                  out_of_bounds = False\<rparr>)) \<and>
   (water_cell self x y z symbol \<and> rectangular self \<and>
    tiles (the_map self) (default (the_map self)) \<noteq> None \<and>
    0 \<le> z \<and> z < int (length (layers (the_map self))) \<longrightarrow>
      (\<exists>ls'. cell_body self x_origin y_origin z (x, y) ls = Inr ls'))"
proof (intro conjI impI)
  assume a: "water_cell self x y z symbol \<and> cell_body self x_origin y_origin z (x, y) ls = Inr ls'"
  then show "get_tile_img (the_map self) symbol = ''wtr.gif''"
    by (simp add: water_cell_def get_tile_img_def)
next
  assume a: "water_cell self x y z symbol \<and> cell_body self x_origin y_origin z (x, y) ls = Inr ls'"
  have "\<forall>i<4. out_of_bounds (ns ! i) \<longrightarrow> ''nsew'' ! i \<notin> set (edge_codes (the_map self) ns)" for ns
    by (simp add: edge_codes_mem non_canceling_def)
  then show "\<exists>ns ls2. get_neighbors self x y z = Inr ns \<and>
         subseq (edge_codes (the_map self) ns) ''nsew'' \<and>
         distinct (edge_codes (the_map self) ns) \<and>
         (\<forall>i<4. out_of_bounds (ns ! i) \<longrightarrow> ''nsew'' ! i \<notin> set (edge_codes (the_map self) ns)) \<and>
         ls' = dict_append ls2 z
                 \<lparr>tx = (x - x_origin) * TILE_SIZE, ty = (y - y_origin) * TILE_SIZE, tz = z,
                  tile = (if edge_codes (the_map self) ns \<noteq> []
                          then ''wtr_'' @ edge_codes (the_map self) ns else symbol),
                  out_of_bounds = False\<rparr>"
    using water_cell_body [of self x y z symbol x_origin y_origin ls ls'] a
      subseq_edge_codes distinct_edge_codes by blast
next
  assume "water_cell self x y z symbol \<and> rectangular self \<and>
    tiles (the_map self) (default (the_map self)) \<noteq> None \<and>
    0 \<le> z \<and> z < int (length (layers (the_map self)))"
  then show "\<exists>ls'. cell_body self x_origin y_origin z (x, y) ls = Inr ls'"
    by (simp add: cell_body_returns)
qed

theorem water_cell_edge_codes_witness:
  "water_cell pond 1 1 0 ''w'' \<and> get_tile_img (the_map pond) ''w'' = ''wtr.gif'' \<and>
   (\<exists>ns ls2. get_neighbors pond 1 1 0 = Inr ns \<and>
      subseq (edge_codes (the_map pond) ns) ''nsew'' \<and>
      distinct (edge_codes (the_map pond) ns) \<and>
      (\<forall>i<4. out_of_bounds (ns ! i) \<longrightarrow> ''nsew'' ! i \<notin> set (edge_codes (the_map pond) ns)) \<and>
      [(1, [\<lparr>tx = 40, ty = 40, tz = 0, tile = ''wtrc_b'', out_of_bounds = False\<rparr>]),
       (0, [\<lparr>tx = 40, ty = 40, tz = 0, tile = ''wtr_ne'', out_of_bounds = False\<rparr>])] =
      dict_append ls2 0
        \<lparr>tx = (1 - 0) * TILE_SIZE, ty = (1 - 0) * TILE_SIZE, tz = 0,
         tile = (if edge_codes (the_map pond) ns \<noteq> []
                 then ''wtr_'' @ edge_codes (the_map pond) ns else ''w''),
         out_of_bounds = False\<rparr>) \<and>
   (\<exists>ls'. cell_body pond 0 0 0 (1, 1) [] = Inr ls')"
  using water_cell_edge_codes [of pond 1 1 0 "''w''" 0 0 "[]"
      "[(1, [\<lparr>tx = 40, ty = 40, tz = 0, tile = ''wtrc_b'', out_of_bounds = False\<rparr>]),
        (0, [\<lparr>tx = 40, ty = 40, tz = 0, tile = ''wtr_ne'', out_of_bounds = False\<rparr>])]"]
    pond_center rectangular_pond
  by blast


lemma caps_of_tiles:
  "t \<in> set (caps_of m ns x_out y_out z) \<Longrightarrow>
     tx t = x_out \<and> ty t = y_out \<and> tz t = z \<and> \<not> out_of_bounds t \<and>
     tile t \<in> {''wtrc_a'', ''wtrc_b'', ''wtrc_c'', ''wtrc_d''}"
  by (auto simp add: caps_of_def cap_if_def split: if_splits)

lemma caps_of_none:
  "\<forall>i \<in> {4, 5, 6, 7}. \<not> non_canceling m (ns ! i) \<Longrightarrow> caps_of m ns x_out y_out z = []"
  by (simp add: caps_of_def cap_if_def)

text \<open>
  Claim C7. When the loop body returns at a water cell processed with edge rendering
  enabled, the caps emitted are those of the diagonal neighbors NW, SW, SE, NE that are
  inside the bounds with a sprite that cancels no edge, with the letters a, c, d, b in
  that order; they are emitted before the tile of the cell, each at the pixel position
  and level of the cell, with a name among \<open>wtrc_a\<close>, \<open>wtrc_b\<close>, \<open>wtrc_c\<close>, \<open>wtrc_d\<close>; a
  diagonal neighbor outside the bounds gives none, and a cell none of whose diagonal
  neighbors qualifies gives no cap at all.
\<close>

theorem water_cell_caps:
  "water_cell self x y z symbol \<and> cell_body self x_origin y_origin z (x, y) ls = Inr ls' \<longrightarrow>
     (\<exists>ns main.
        get_neighbors self x y z = Inr ns \<and>
        ls' = dict_append
                (place_caps ls (caps_of (the_map self) ns
                   ((x - x_origin) * TILE_SIZE) ((y - y_origin) * TILE_SIZE) z))
                z main \<and>
        (\<forall>t \<in> set (caps_of (the_map self) ns
                     ((x - x_origin) * TILE_SIZE) ((y - y_origin) * TILE_SIZE) z).
           tx t = (x - x_origin) * TILE_SIZE \<and> ty t = (y - y_origin) * TILE_SIZE \<and> tz t = z \<and>
           tile t \<in> {''wtrc_a'', ''wtrc_b'', ''wtrc_c'', ''wtrc_d''}) \<and>
        (\<forall>i \<in> {4, 5, 6, 7}. out_of_bounds (ns ! i) \<longrightarrow> \<not> non_canceling (the_map self) (ns ! i)) \<and>
        ((\<forall>i \<in> {4, 5, 6, 7}. \<not> non_canceling (the_map self) (ns ! i)) \<longrightarrow>
           ls' = dict_append ls z main))"
proof
  assume a: "water_cell self x y z symbol \<and> cell_body self x_origin y_origin z (x, y) ls = Inr ls'"
  let ?xo = "(x - x_origin) * TILE_SIZE" and ?yo = "(y - y_origin) * TILE_SIZE"
  obtain ns where ns: "get_neighbors self x y z = Inr ns"
    and l: "ls' = dict_append (place_caps ls (caps_of (the_map self) ns ?xo ?yo z)) z
        \<lparr>tx = ?xo, ty = ?yo, tz = z,
         tile = (if edge_codes (the_map self) ns \<noteq> []
                 then ''wtr_'' @ edge_codes (the_map self) ns else symbol),
         out_of_bounds = False\<rparr>"
    using water_cell_body [of self x y z symbol x_origin y_origin ls ls'] a by blast
  have 1: "\<forall>t \<in> set (caps_of (the_map self) ns ?xo ?yo z).
      tx t = ?xo \<and> ty t = ?yo \<and> tz t = z \<and>
      tile t \<in> {''wtrc_a'', ''wtrc_b'', ''wtrc_c'', ''wtrc_d''}"
    using caps_of_tiles by blast
  have 2: "\<forall>i \<in> {4, 5, 6, 7}. out_of_bounds (ns ! i) \<longrightarrow> \<not> non_canceling (the_map self) (ns ! i)"
    by (simp add: non_canceling_def)
  have 3: "(\<forall>i \<in> {4, 5, 6, 7}. \<not> non_canceling (the_map self) (ns ! i)) \<longrightarrow>
      place_caps ls (caps_of (the_map self) ns ?xo ?yo z) = ls"
    using caps_of_none [of "the_map self" ns ?xo ?yo z] by (simp add: place_caps_def)
  show "\<exists>ns main.
        get_neighbors self x y z = Inr ns \<and>
        ls' = dict_append (place_caps ls (caps_of (the_map self) ns ?xo ?yo z)) z main \<and>
        (\<forall>t \<in> set (caps_of (the_map self) ns ?xo ?yo z).
           tx t = ?xo \<and> ty t = ?yo \<and> tz t = z \<and>
           tile t \<in> {''wtrc_a'', ''wtrc_b'', ''wtrc_c'', ''wtrc_d''}) \<and>
        (\<forall>i \<in> {4, 5, 6, 7}. out_of_bounds (ns ! i) \<longrightarrow> \<not> non_canceling (the_map self) (ns ! i)) \<and>
        ((\<forall>i \<in> {4, 5, 6, 7}. \<not> non_canceling (the_map self) (ns ! i)) \<longrightarrow>
           ls' = dict_append ls z main)"
    apply (rule exI [of _ ns])
    apply (rule exI [of _ "\<lparr>tx = ?xo, ty = ?yo, tz = z,
         tile = (if edge_codes (the_map self) ns \<noteq> []
                 then ''wtr_'' @ edge_codes (the_map self) ns else symbol),
         out_of_bounds = False\<rparr>"])
    using ns l 1 2 3 apply simp
    done
qed

theorem water_cell_caps_witness:
  "water_cell pond 1 1 0 ''w'' \<and>
   (\<exists>ns main.
        get_neighbors pond 1 1 0 = Inr ns \<and>
        [(1, [\<lparr>tx = 40, ty = 40, tz = 0, tile = ''wtrc_b'', out_of_bounds = False\<rparr>]),
         (0, [\<lparr>tx = 40, ty = 40, tz = 0, tile = ''wtr_ne'', out_of_bounds = False\<rparr>])] =
          dict_append
            (place_caps [] (caps_of (the_map pond) ns ((1 - 0) * TILE_SIZE) ((1 - 0) * TILE_SIZE) 0))
            0 main)"
  using water_cell_caps [of pond 1 1 0 "''w''" 0 0 "[]"
      "[(1, [\<lparr>tx = 40, ty = 40, tz = 0, tile = ''wtrc_b'', out_of_bounds = False\<rparr>]),
        (0, [\<lparr>tx = 40, ty = 40, tz = 0, tile = ''wtr_ne'', out_of_bounds = False\<rparr>])]"]
    pond_center(1,2)
  by blast

lemma single_cell_neighbors:
  assumes "rows self = 1" and "cols self = 1"
  shows "get_neighbors self 0 0 z =
     Inr (map (\<lambda>(x, y). \<lparr>tx = x, ty = y, tz = z, tile = border (the_map self), out_of_bounds = True\<rparr>)
          [(0, - 1), (0, 1), (1, 0), (- 1, 0), (- 1, - 1), (- 1, 1), (1, 1), (1, - 1)])"
  using assms by (simp add: get_neighbors_def get_tile_at_def)

lemma single_cell_water_branch:
  assumes "rows self = 1" and "cols self = 1"
  shows "water_branch self 0 0 z x_out y_out symbol ls = Inr (symbol, ls)"
  by (simp add: water_branch_def single_cell_neighbors [OF assms] WATER_EDGE_CANCELERS_def
      subscript_def)

text \<open>
  Claim C10. On a map whose first level is the single cell \<open>c\<close>, not the blank, with the
  sprite \<open>wtr\<close>, and with edge rendering enabled, the loop body at that cell appends one
  tile to the key 0, the plain symbol \<open>c\<close> without a suffix, for which \<open>get_tile\<close> opens
  \<open>wtr.gif\<close>, and no cap; when the map has this level only, the full-map run returns
  exactly that tile.
\<close>

theorem single_water_cell:
  "init m vx vy vis True = Inr self \<and> layers m = [[c]] # upper \<and> c \<noteq> CHR '' '' \<and>
   tiles m [c] = Some ''wtr'' \<longrightarrow>
     get_tile_img m [c] = ''wtr.gif'' \<and>
     cell_body self x_origin y_origin 0 (0, 0) ls =
       Inr (dict_append ls 0
              \<lparr>tx = (0 - x_origin) * TILE_SIZE, ty = (0 - y_origin) * TILE_SIZE, tz = 0,
               tile = [c], out_of_bounds = False\<rparr>) \<and>
     (upper = [] \<longrightarrow>
        tile_mapper self True =
          Inr [(0, [\<lparr>tx = 0, ty = 0, tz = 0, tile = [c], out_of_bounds = False\<rparr>])])"
proof
  assume a: "init m vx vy vis True = Inr self \<and> layers m = [[c]] # upper \<and> c \<noteq> CHR '' '' \<and>
   tiles m [c] = Some ''wtr''"
  then have f: "the_map self = m" "rows self = 1" "cols self = 1" "render_water_edges self"
    using init_fields [of m vx vy vis True self] by simp_all
  have s: "layers_at m 0 0 0 = Inr [c]"
    using a by (simp add: layers_at_def subscript_def)
  have cell: "cell_body self xo yo 0 (0, 0) ks =
       Inr (dict_append ks 0
              \<lparr>tx = (0 - xo) * TILE_SIZE, ty = (0 - yo) * TILE_SIZE, tz = 0,
               tile = [c], out_of_bounds = False\<rparr>)" for xo yo ks
    using a f s by (simp add: cell_body_def single_cell_water_branch)
  have "tile_mapper self True =
      Inr [(0, [\<lparr>tx = 0, ty = 0, tz = 0, tile = [c], out_of_bounds = False\<rparr>])]" if "upper = []"
    using that a f cell [of 0 0 "[]"]
    by (simp add: tile_mapper_def x_origin_of_def y_origin_of_def x_max_of_def y_max_of_def
        range_py_def TILE_SIZE_def)
  moreover have "get_tile_img m [c] = ''wtr.gif''"
    using a by (simp add: get_tile_img_def)
  ultimately show "get_tile_img m [c] = ''wtr.gif'' \<and>
     cell_body self x_origin y_origin 0 (0, 0) ls =
       Inr (dict_append ls 0
              \<lparr>tx = (0 - x_origin) * TILE_SIZE, ty = (0 - y_origin) * TILE_SIZE, tz = 0,
               tile = [c], out_of_bounds = False\<rparr>) \<and>
     (upper = [] \<longrightarrow>
        tile_mapper self True =
          Inr [(0, [\<lparr>tx = 0, ty = 0, tz = 0, tile = [c], out_of_bounds = False\<rparr>])])"
    using cell by blast
qed

theorem single_water_cell_witness:
  "init puddle_map 0 0 9 True = Inr puddle \<and> get_tile_img puddle_map ''w'' = ''wtr.gif'' \<and>
   cell_body puddle 0 0 0 (0, 0) [] =
     Inr [(0, [\<lparr>tx = 0, ty = 0, tz = 0, tile = ''w'', out_of_bounds = False\<rparr>])] \<and>
   tile_mapper puddle True =
     Inr [(0, [\<lparr>tx = 0, ty = 0, tz = 0, tile = ''w'', out_of_bounds = False\<rparr>])]"
proof -
  have i: "init puddle_map 0 0 9 True = Inr puddle"
    by (simp add: init_def subscript_def puddle_map_def puddle_def or_one_eq)
  have l: "layers puddle_map = [[CHR ''w'']] # []" "tiles puddle_map [CHR ''w''] = Some ''wtr''"
    by (simp_all add: puddle_map_def)
  show ?thesis
    using single_water_cell [of puddle_map 0 0 9 puddle "CHR ''w''" "[]" 0 0 "[]"] i l
    by (simp add: TILE_SIZE_def)
qed

section \<open>Full map and window\<close>

lemma all_tiles_dict_append:
  "mset (all_tiles (dict_append ls k t)) = add_mset t (mset (all_tiles ls))"
  by (induction ls k t rule: dict_append.induct) (simp_all add: all_tiles_def)

lemma all_tiles_place_caps:
  "mset (all_tiles (place_caps ls caps)) = mset (all_tiles ls) + mset caps"
proof (induction caps arbitrary: ls)
  case Nil
  then show ?case by (simp add: place_caps_def)
next
  case (Cons c caps)
  have "place_caps ls (c # caps) = place_caps (dict_append ls (int (length ls) + 1) c) caps"
    by (simp add: place_caps_def)
  then show ?case
    by (simp add: Cons.IH all_tiles_dict_append)
qed

lemma cell_body_emits:
  assumes "cell_body self x_origin y_origin z p ls = Inr ls'"
  shows "mset (all_tiles ls') = mset (all_tiles ls) + mset (cell_emits self x_origin y_origin z p)"
proof -
  obtain x y where p: "p = (x, y)" by (cases p)
  let ?xo = "(x - x_origin) * TILE_SIZE" and ?yo = "(y - y_origin) * TILE_SIZE"
  show ?thesis
  proof (cases "x < 0 \<or> y < 0 \<or> cols self \<le> x \<or> rows self \<le> y")
    case True
    then show ?thesis
      using assms p
      by (auto simp add: cell_body_def cell_emits_def Let_def all_tiles_dict_append
          split: if_splits)
  next
    case False
    then obtain symbol where s: "layers_at (the_map self) z y x = Inr symbol"
      using assms p by (auto simp add: cell_body_def Let_def split: sum.splits)
    show ?thesis
    proof (cases "symbol = '' '' \<or> \<not> render_water_edges self")
      case True
      then show ?thesis
        using assms p False s
        by (auto simp add: cell_body_def cell_emits_def Let_def split: if_splits)
    next
      case live: False
      show ?thesis
      proof (cases "tiles (the_map self) symbol = Some ''wtr''")
        case True
        then have w: "water_cell self x y z symbol"
          using False s live by (simp add: water_cell_def)
        obtain ns where ns: "get_neighbors self x y z = Inr ns"
          and l: "ls' = dict_append (place_caps ls (caps_of (the_map self) ns ?xo ?yo z)) z
              \<lparr>tx = ?xo, ty = ?yo, tz = z,
               tile = (if edge_codes (the_map self) ns \<noteq> []
                       then ''wtr_'' @ edge_codes (the_map self) ns else symbol),
               out_of_bounds = False\<rparr>"
          using water_cell_body [OF w] assms p by blast
        have "cell_emits self x_origin y_origin z p =
            caps_of (the_map self) ns ?xo ?yo z @
            [\<lparr>tx = ?xo, ty = ?yo, tz = z,
              tile = (if edge_codes (the_map self) ns \<noteq> []
                      then ''wtr_'' @ edge_codes (the_map self) ns else symbol),
              out_of_bounds = False\<rparr>]"
          using p False s live True ns by (simp add: cell_emits_def Let_def)
        then show ?thesis
          using l by (simp add: all_tiles_dict_append all_tiles_place_caps)
      next
        case dry: False
        then show ?thesis
          using assms p False s live
          by (auto simp add: cell_body_def cell_emits_def Let_def all_tiles_dict_append)
      qed
    qed
  qed
qed

lemma cell_emits_position:
  "t \<in> set (cell_emits self x_origin y_origin z p) \<Longrightarrow>
     tx t = (fst p - x_origin) * TILE_SIZE \<and> ty t = (snd p - y_origin) * TILE_SIZE \<and> tz t = z"
  by (auto simp add: cell_emits_def Let_def dest: caps_of_tiles split: if_splits sum.splits)

lemma caps_of_names:
  "map name_flag (caps_of m ns a b z) = map name_flag (caps_of m ns a' b' z)"
  by (simp add: caps_of_def cap_if_def name_flag_def)

lemma cell_emits_names:
  "map name_flag (cell_emits self x_origin y_origin z p) =
   map name_flag (cell_emits self x_origin' y_origin' z p)"
  using caps_of_names
  by (auto simp add: cell_emits_def Let_def name_flag_def split: sum.splits)

lemma cell_emits_names_mset:
  "image_mset name_flag (mset (cell_emits self x_origin y_origin z p)) =
   image_mset name_flag (mset (cell_emits self x_origin' y_origin' z p))"
  using arg_cong [OF cell_emits_names [of self x_origin y_origin z p x_origin' y_origin'], of mset]
  by simp

lemma cells_loop_emits:
  "cells_loop self x_origin y_origin z ps ls = Inr ls' \<Longrightarrow>
     mset (all_tiles ls') =
       mset (all_tiles ls) + mset (concat (map (cell_emits self x_origin y_origin z) ps))"
proof (induction ps arbitrary: ls)
  case Nil
  then show ?case by simp
next
  case (Cons p ps)
  then obtain mid where m: "cell_body self x_origin y_origin z p ls = Inr mid"
    and r: "cells_loop self x_origin y_origin z ps mid = Inr ls'"
    by (auto split: sum.splits)
  show ?case
    using cell_body_emits [OF m] Cons.IH [OF r] by simp
qed

lemma levels_loop_emits:
  "levels_loop self x_origin y_origin cells zs ls = Inr ls' \<Longrightarrow>
     mset (all_tiles ls') =
       mset (all_tiles ls) +
       mset (concat (map (\<lambda>z. concat (map (cell_emits self x_origin y_origin z) cells)) zs))"
proof (induction zs arbitrary: ls)
  case Nil
  then show ?case by simp
next
  case (Cons z zs)
  then obtain mid where m: "cells_loop self x_origin y_origin z cells ls = Inr mid"
    and r: "levels_loop self x_origin y_origin cells zs mid = Inr ls'"
    by (auto split: sum.splits)
  show ?case
    using cells_loop_emits [OF m] Cons.IH [OF r] by simp
qed

lemma concat_single:
  "distinct xs \<Longrightarrow> \<forall>b \<in> set xs. b \<noteq> a \<longrightarrow> g b = [] \<Longrightarrow>
     concat (map g xs) = (if a \<in> set xs then g a else [])"
  by (induction xs) auto

lemma filter_cell_emits:
  "filter (\<lambda>t. tx t = (x - x_origin) * TILE_SIZE \<and> ty t = (y - y_origin) * TILE_SIZE \<and> tz t = z0)
     (cell_emits self x_origin y_origin z p) =
   (if z = z0 \<and> p = (x, y) then cell_emits self x_origin y_origin z p else [])"
proof (cases "z = z0 \<and> p = (x, y)")
  case True
  then show ?thesis
    using cell_emits_position [of _ self x_origin y_origin z p]
    by (auto intro!: filter_True)
next
  case False
  then have "fst p \<noteq> x \<or> snd p \<noteq> y \<or> z \<noteq> z0"
    by (cases p) auto
  then have "\<forall>t \<in> set (cell_emits self x_origin y_origin z p).
      \<not> (tx t = (x - x_origin) * TILE_SIZE \<and> ty t = (y - y_origin) * TILE_SIZE \<and> tz t = z0)"
    using cell_emits_position [of _ self x_origin y_origin z p]
    by (auto simp add: TILE_SIZE_def)
  then have "filter (\<lambda>t. tx t = (x - x_origin) * TILE_SIZE \<and> ty t = (y - y_origin) * TILE_SIZE \<and> tz t = z0)
      (cell_emits self x_origin y_origin z p) = []"
    by (rule filter_False)
  then show ?thesis
    using False by (simp only: if_False)
qed

lemma filter_concat_map:
  "filter P (concat (map F xs)) = concat (map (\<lambda>x. filter P (F x)) xs)"
  by (induction xs) simp_all

lemma filter_run:
  assumes "distinct zs" and "distinct cells"
  shows "filter (\<lambda>t. tx t = (x - x_origin) * TILE_SIZE \<and> ty t = (y - y_origin) * TILE_SIZE \<and> tz t = z0)
       (concat (map (\<lambda>z. concat (map (cell_emits self x_origin y_origin z) cells)) zs)) =
     (if z0 \<in> set zs \<and> (x, y) \<in> set cells then cell_emits self x_origin y_origin z0 (x, y)
      else [])"
proof -
  let ?P = "\<lambda>t. tx t = (x - x_origin) * TILE_SIZE \<and> ty t = (y - y_origin) * TILE_SIZE \<and> tz t = z0"
  let ?g = "\<lambda>z p. if z = z0 \<and> p = (x, y) then cell_emits self x_origin y_origin z p else []"
  let ?h = "\<lambda>z. if z = z0 \<and> (x, y) \<in> set cells then cell_emits self x_origin y_origin z (x, y) else []"
  have inner: "filter ?P (concat (map (cell_emits self x_origin y_origin z) cells)) = ?h z" for z
  proof -
    have "filter ?P (concat (map (cell_emits self x_origin y_origin z) cells)) =
        concat (map (?g z) cells)"
      by (simp only: filter_concat_map filter_cell_emits)
    also have "\<dots> = (if (x, y) \<in> set cells then ?g z (x, y) else [])"
      using assms(2) by (intro concat_single) auto
    finally show ?thesis by auto
  qed
  have "filter ?P (concat (map (\<lambda>z. concat (map (cell_emits self x_origin y_origin z) cells)) zs)) =
      concat (map ?h zs)"
    by (subst filter_concat_map) (simp only: inner)
  also have "\<dots> = (if z0 \<in> set zs then ?h z0 else [])"
    using assms(1) by (intro concat_single) auto
  finally show ?thesis by auto
qed

lemma distinct_cells:
  "distinct (List.product (range_py a b) (range_py c d))"
  by (simp add: distinct_product range_py_def)

lemma tile_mapper_tiles_at:
  assumes "tile_mapper self full_map = Inr ls"
  shows "mset (tiles_at ls ((x - x_origin_of self full_map) * TILE_SIZE)
                 ((y - y_origin_of self full_map) * TILE_SIZE) z0) =
     mset (map name_flag
       (if z0 \<in> set (range_py 0 (int (length (layers (the_map self))))) \<and>
           (x, y) \<in> set (List.product
              (range_py (x_origin_of self full_map) (x_max_of self full_map))
              (range_py (y_origin_of self full_map) (y_max_of self full_map)))
        then cell_emits self (x_origin_of self full_map) (y_origin_of self full_map) z0 (x, y)
        else []))"
proof -
  let ?xo = "x_origin_of self full_map" and ?yo = "y_origin_of self full_map"
  let ?cells = "List.product (range_py ?xo (x_max_of self full_map))
      (range_py ?yo (y_max_of self full_map))"
  let ?zs = "range_py 0 (int (length (layers (the_map self))))"
  let ?P = "\<lambda>t. tx t = (x - ?xo) * TILE_SIZE \<and> ty t = (y - ?yo) * TILE_SIZE \<and> tz t = z0"
  let ?run = "concat (map (\<lambda>z. concat (map (cell_emits self ?xo ?yo z) ?cells)) ?zs)"
  have "mset (all_tiles ls) = mset ?run"
    using levels_loop_emits [of self ?xo ?yo ?cells ?zs "[]" ls] assms
    by (simp add: tile_mapper_def all_tiles_def)
  then have "mset (filter ?P (all_tiles ls)) = mset (filter ?P ?run)"
    by simp
  moreover have "filter ?P ?run =
      (if z0 \<in> set ?zs \<and> (x, y) \<in> set ?cells then cell_emits self ?xo ?yo z0 (x, y) else [])"
    by (intro filter_run distinct_cells) (simp add: range_py_def)
  ultimately have "mset (filter ?P (all_tiles ls)) =
      mset (if z0 \<in> set ?zs \<and> (x, y) \<in> set ?cells then cell_emits self ?xo ?yo z0 (x, y) else [])"
    by simp
  then have "image_mset name_flag (mset (filter ?P (all_tiles ls))) =
      image_mset name_flag
        (mset (if z0 \<in> set ?zs \<and> (x, y) \<in> set ?cells then cell_emits self ?xo ?yo z0 (x, y) else []))"
    by (rule arg_cong)
  then show ?thesis
    unfolding tiles_at_def mset_map .
qed

lemma cells_loop_returns:
  assumes "rectangular self" and "tiles (the_map self) (default (the_map self)) \<noteq> None"
    and "0 \<le> z" and "z < int (length (layers (the_map self)))"
  shows "\<exists>ls'. cells_loop self x_origin y_origin z ps ls = Inr ls'"
proof (induction ps arbitrary: ls)
  case Nil
  then show ?case by simp
next
  case (Cons p ps)
  obtain mid where "cell_body self x_origin y_origin z p ls = Inr mid"
    using cell_body_returns [OF assms] by blast
  then show ?case
    using Cons.IH [of mid] by simp
qed

lemma levels_loop_returns:
  assumes "rectangular self" and "tiles (the_map self) (default (the_map self)) \<noteq> None"
  shows "\<forall>z \<in> set zs. 0 \<le> z \<and> z < int (length (layers (the_map self))) \<Longrightarrow>
     \<exists>ls'. levels_loop self x_origin y_origin cells zs ls = Inr ls'"
proof (induction zs arbitrary: ls)
  case Nil
  then show ?case by simp
next
  case (Cons z zs)
  then have "0 \<le> z" "z < int (length (layers (the_map self)))"
    by simp_all
  then obtain mid where "cells_loop self x_origin y_origin z cells ls = Inr mid"
    using cells_loop_returns [OF assms] by blast
  moreover have "\<exists>ls'. levels_loop self x_origin y_origin cells zs mid = Inr ls'"
    using Cons.prems by (intro Cons.IH) simp
  ultimately show ?case by simp
qed

lemma tile_mapper_returns:
  assumes "rectangular self" and "tiles (the_map self) (default (the_map self)) \<noteq> None"
  shows "\<exists>ls. tile_mapper self full_map = Inr ls"
  unfolding tile_mapper_def
  by (intro levels_loop_returns [OF assms]) (simp add: range_py_def)

lemma pond_close_runs:
  "tile_mapper pond_close True = Inr pond_full_layers"
  "tile_mapper pond_close False = Inr pond_close_layers"
  unfolding pond_full_layers_def pond_close_layers_def by code_simp+

text \<open>
  Claim C9. When both runs of \<open>tile_mapper\<close> return, then for every cell \<open>(x, y)\<close> that
  lies inside the grid and inside the window, and every level \<open>z\<close>, the tiles of the
  full-map run at the pixel position \<open>(x * TILE_SIZE, y * TILE_SIZE)\<close> and the tiles of
  the windowed run at the position shifted by the window origin times the tile size
  have the same contents (names with their edge suffixes, caps, flags), counted with
  multiplicity. On a rectangular map whose default symbol has a sprite both runs return.
\<close>

theorem full_map_and_window_agree:
  "(tile_mapper self True = Inr full \<and> tile_mapper self False = Inr win \<and>
    0 \<le> x \<and> x < cols self \<and> 0 \<le> y \<and> y < rows self \<and>
    x_origin_of self False \<le> x \<and> x < x_max_of self False \<and>
    y_origin_of self False \<le> y \<and> y < y_max_of self False \<longrightarrow>
      mset (tiles_at full (x * TILE_SIZE) (y * TILE_SIZE) z) =
      mset (tiles_at win ((x - x_origin_of self False) * TILE_SIZE)
              ((y - y_origin_of self False) * TILE_SIZE) z)) \<and>
   (rectangular self \<and> tiles (the_map self) (default (the_map self)) \<noteq> None \<longrightarrow>
      (\<exists>full win. tile_mapper self True = Inr full \<and> tile_mapper self False = Inr win))"
proof (intro conjI impI)
  assume a: "tile_mapper self True = Inr full \<and> tile_mapper self False = Inr win \<and>
    0 \<le> x \<and> x < cols self \<and> 0 \<le> y \<and> y < rows self \<and>
    x_origin_of self False \<le> x \<and> x < x_max_of self False \<and>
    y_origin_of self False \<le> y \<and> y < y_max_of self False"
  have f: "(x, y) \<in> set (List.product (range_py (x_origin_of self True) (x_max_of self True))
      (range_py (y_origin_of self True) (y_max_of self True)))"
    using a by (simp add: range_py_def x_origin_of_def x_max_of_def y_origin_of_def y_max_of_def)
  have w: "(x, y) \<in> set (List.product (range_py (x_origin_of self False) (x_max_of self False))
      (range_py (y_origin_of self False) (y_max_of self False)))"
    using a by (simp add: range_py_def)
  have "mset (tiles_at full (x * TILE_SIZE) (y * TILE_SIZE) z) =
      mset (map name_flag
        (if z \<in> set (range_py 0 (int (length (layers (the_map self)))))
         then cell_emits self 0 0 z (x, y) else []))"
    using tile_mapper_tiles_at [of self True full x y z] a f
    by (simp add: x_origin_of_def y_origin_of_def)
  moreover have "mset (tiles_at win ((x - x_origin_of self False) * TILE_SIZE)
              ((y - y_origin_of self False) * TILE_SIZE) z) =
      mset (map name_flag
        (if z \<in> set (range_py 0 (int (length (layers (the_map self)))))
         then cell_emits self (x_origin_of self False) (y_origin_of self False) z (x, y) else []))"
    using tile_mapper_tiles_at [of self False win x y z] a w by simp
  ultimately show "mset (tiles_at full (x * TILE_SIZE) (y * TILE_SIZE) z) =
      mset (tiles_at win ((x - x_origin_of self False) * TILE_SIZE)
              ((y - y_origin_of self False) * TILE_SIZE) z)"
    using cell_emits_names_mset [of self 0 0 z "(x, y)" "x_origin_of self False" "y_origin_of self False"]
    by simp
next
  assume "rectangular self \<and> tiles (the_map self) (default (the_map self)) \<noteq> None"
  then show "\<exists>full win. tile_mapper self True = Inr full \<and> tile_mapper self False = Inr win"
    using tile_mapper_returns by blast
qed

theorem full_map_and_window_agree_witness:
  "tile_mapper pond_close True = Inr pond_full_layers \<and>
   tile_mapper pond_close False = Inr pond_close_layers \<and>
   x_origin_of pond_close False = 1 \<and> y_origin_of pond_close False = 1 \<and>
   mset (tiles_at pond_full_layers (1 * TILE_SIZE) (1 * TILE_SIZE) 0) =
   mset (tiles_at pond_close_layers ((1 - 1) * TILE_SIZE) ((1 - 1) * TILE_SIZE) 0) \<and>
   tiles_at pond_close_layers ((1 - 1) * TILE_SIZE) ((1 - 1) * TILE_SIZE) 0 =
     [(''wtrc_b'', False), (''wtr_ne'', False)] \<and>
   (\<exists>full win. tile_mapper pond_close True = Inr full \<and> tile_mapper pond_close False = Inr win)"
proof -
  have o: "x_origin_of pond_close False = 1" "y_origin_of pond_close False = 1"
    "x_max_of pond_close False = 2" "y_max_of pond_close False = 2"
    "cols pond_close = 3" "rows pond_close = 3"
    by (simp_all add: x_origin_of_def y_origin_of_def x_max_of_def y_max_of_def pond_close_def)
  have r: "rectangular pond_close"
    "tiles (the_map pond_close) (default (the_map pond_close)) \<noteq> None"
    by (simp_all add: rectangular_def pond_close_def pond_map_def)
  have t: "tiles_at pond_close_layers ((1 - 1) * TILE_SIZE) ((1 - 1) * TILE_SIZE) 0 =
      [(''wtrc_b'', False), (''wtr_ne'', False)]"
    by (simp add: tiles_at_def all_tiles_def name_flag_def pond_close_layers_def)
  show ?thesis
    using full_map_and_window_agree [of pond_close pond_full_layers pond_close_layers 1 1 0]
      pond_close_runs o r t
    by simp
qed


end
